theory Spec2Isabelle
  imports Complex_Main "HOL-Library.Sublist"
begin

section \<open>Python values and errors\<close>

text \<open>
  The analytics module (\<open>lib/app/analytics/common.py\<close>) works on decoded JSON and on
  rows of a table.  Decoded JSON is a datatype; numbers are exact reals (no NaN, no
  rounding), objects are association lists in insertion order.  Every exception the code
  can raise is a value of \<open>py_error\<close>, and a fallible computation returns
  \<open>py_error + 'a\<close> with \<open>Inl\<close> for the raise.
\<close>

datatype json =
    JNull
  | JBool bool
  | JNum real
  | JStr string
  | JArr "json list"
  | JObj "(string \<times> json) list"

datatype app_message = DepricatedDocumentVideo | ClassesFileNotFound

datatype py_error =
    KeyError
  | TypeError
  | AttributeError
  | ValueError
  | IndexError
  | ZeroDivisionError
  | NotImplementedError
  | UnboundLocalError
  | IsADirectoryError
  | AppException app_message

definition ebind :: "py_error + 'a \<Rightarrow> ('a \<Rightarrow> py_error + 'b) \<Rightarrow> py_error + 'b" where
  "ebind m f = (case m of Inl e \<Rightarrow> Inl e | Inr x \<Rightarrow> f x)"

text \<open>\<open>obj[key]\<close> with a string key: only a dict supports it.\<close>

fun py_getitem :: "json \<Rightarrow> string \<Rightarrow> py_error + json" where
  "py_getitem (JObj kvs) k = (case map_of kvs k of None \<Rightarrow> Inl KeyError | Some v \<Rightarrow> Inr v)"
| "py_getitem _ k = Inl TypeError"

text \<open>\<open>obj.get(key)\<close>: only a dict has the method; a missing key gives \<open>None\<close>.\<close>

fun py_get :: "json \<Rightarrow> string \<Rightarrow> py_error + json" where
  "py_get (JObj kvs) k = (case map_of kvs k of None \<Rightarrow> Inr JNull | Some v \<Rightarrow> Inr v)"
| "py_get _ k = Inl AttributeError"

text \<open>\<open>obj.get(key, default)\<close>: the default is used only when the key is absent.\<close>

fun py_get_default :: "json \<Rightarrow> string \<Rightarrow> json \<Rightarrow> py_error + json" where
  "py_get_default (JObj kvs) k d = (case map_of kvs k of None \<Rightarrow> Inr d | Some v \<Rightarrow> Inr v)"
| "py_get_default _ k d = Inl AttributeError"

text \<open>A value used as a number: Python's \<open>bool\<close> is a subtype of \<open>int\<close>.\<close>

fun py_num :: "json \<Rightarrow> real option" where
  "py_num (JNum r) = Some r"
| "py_num (JBool b) = Some (if b then 1 else 0)"
| "py_num _ = None"

definition as_num :: "json \<Rightarrow> py_error + real" where
  "as_num j = (case py_num j of None \<Rightarrow> Inl TypeError | Some r \<Rightarrow> Inr r)"

section \<open>The geometry library\<close>

text \<open>
  The consensus code builds shapely objects and asks them for their type, validity, area,
  intersection, union and distance.  The library is not part of the repository, so its
  operations are a parameter of the model: a record of functions over a type \<open>'g\<close> of
  geometry objects.  \<open>sh_inter_area S a b\<close> is \<open>a.intersection(b).area\<close> and
  \<open>sh_union_area S a b\<close> is \<open>a.union(b).area\<close>.
\<close>

record 'g shapely =
  sh_box :: "real \<Rightarrow> real \<Rightarrow> real \<Rightarrow> real \<Rightarrow> 'g"
  sh_Polygon :: "(real \<times> real) list \<Rightarrow> py_error + 'g"
  sh_Point :: "real \<Rightarrow> real \<Rightarrow> 'g"
  sh_type :: "'g \<Rightarrow> string"
  sh_is_valid :: "'g \<Rightarrow> bool"
  sh_area :: "'g \<Rightarrow> real"
  sh_inter_area :: "'g \<Rightarrow> 'g \<Rightarrow> real"
  sh_union_area :: "'g \<Rightarrow> 'g \<Rightarrow> real"
  sh_distance :: "'g \<Rightarrow> 'g \<Rightarrow> real"

text \<open>
  A concrete geometry for evaluating the model: axis-parallel rectangles (what \<open>box\<close>
  builds), the empty polygon and points.  A polygon given by three or more coordinates is
  represented by its bounding rectangle, which is exact when the coordinates are the
  corners of an axis-parallel rectangle; the evaluations below use boxes and points only.
  A rectangle of zero width or height is not a valid polygon.
\<close>

datatype rgeom = Rect real real real real | EmptyPolygon | Pt real real

fun r_type :: "rgeom \<Rightarrow> string" where
  "r_type (Pt x y) = ''Point''"
| "r_type _ = ''Polygon''"

fun r_is_valid :: "rgeom \<Rightarrow> bool" where
  "r_is_valid (Rect a b c d) = (a < c \<and> b < d)"
| "r_is_valid _ = True"

fun r_area :: "rgeom \<Rightarrow> real" where
  "r_area (Rect a b c d) = (c - a) * (d - b)"
| "r_area _ = 0"

fun r_inter_area :: "rgeom \<Rightarrow> rgeom \<Rightarrow> real" where
  "r_inter_area (Rect a b c d) (Rect a' b' c' d') =
     max 0 (min c c' - max a a') * max 0 (min d d' - max b b')"
| "r_inter_area _ _ = 0"

definition r_union_area :: "rgeom \<Rightarrow> rgeom \<Rightarrow> real" where
  "r_union_area g h = r_area g + r_area h - r_inter_area g h"

fun r_distance :: "rgeom \<Rightarrow> rgeom \<Rightarrow> real" where
  "r_distance (Pt x y) (Pt x' y') = sqrt ((x - x')\<^sup>2 + (y - y')\<^sup>2)"
| "r_distance _ _ = 0"

fun r_Polygon :: "(real \<times> real) list \<Rightarrow> py_error + rgeom" where
  "r_Polygon [] = Inr EmptyPolygon"
| "r_Polygon [p] = Inl ValueError"
| "r_Polygon [p, q] = Inl ValueError"
| "r_Polygon ps = Inr (Rect (Min (set (map fst ps))) (Min (set (map snd ps)))
                            (Max (set (map fst ps))) (Max (set (map snd ps))))"

definition rect_ops :: "rgeom shapely" where
  "rect_ops = \<lparr> sh_box = Rect, sh_Polygon = r_Polygon, sh_Point = Pt, sh_type = r_type,
      sh_is_valid = r_is_valid, sh_area = r_area, sh_inter_area = r_inter_area,
      sh_union_area = r_union_area, sh_distance = r_distance \<rparr>"

section \<open>The pairwise scorer\<close>

text \<open>
  \<open>instance_consensus(inst_1, inst_2)\<close>: intersection area over union area for two
  polygons, minus the distance for two points, \<open>NotImplementedError\<close> otherwise.  The
  division is Python's float division, which raises \<open>ZeroDivisionError\<close> on a zero
  divisor.
\<close>

definition instance_consensus :: "'g shapely \<Rightarrow> 'g \<Rightarrow> 'g \<Rightarrow> py_error + real" where
  "instance_consensus S inst_1 inst_2 =
     (if sh_type S inst_1 = sh_type S inst_2 \<and> sh_type S inst_2 = ''Polygon'' then
        (if sh_union_area S inst_1 inst_2 = 0 then Inl ZeroDivisionError
         else Inr (sh_inter_area S inst_1 inst_2 / sh_union_area S inst_1 inst_2))
      else if sh_type S inst_1 = sh_type S inst_2 \<and> sh_type S inst_2 = ''Point'' then
        Inr (- 1 * sh_distance S inst_1 inst_2)
      else Inl NotImplementedError)"

section \<open>The instance matcher\<close>

text \<open>
  A row of the table handed to \<open>image_consensus\<close>: the columns the function reads.
  The caller has collapsed every instance to one row and filtered the rows to one
  annotation type.
\<close>

record df_row =
  imageName :: string
  folderName :: string
  className :: string
  creatorEmail :: json
  attributes :: json
  meta :: json

text \<open>A row of the returned \<open>image_data\<close> (the function returns it column by column).\<close>

record result_row =
  r_creatorEmail :: json
  r_imageName :: string
  r_instanceId :: nat
  r_area :: real
  r_className :: string
  r_attributes :: json
  r_folderName :: string
  r_score :: real

text \<open>
  The tuple \<open>(inst, className, creatorEmail, attributes)\<close> stored per instance, and the
  tuple \<open>(folder, inst, className, creatorEmail, attributes)\<close> stored per group member.
\<close>

type_synonym 'g inst_data = "'g \<times> string \<times> json \<times> json"
type_synonym 'g match_data = "string \<times> 'g inst_data"

text \<open>
  Lines 572--584: the shapely object of a row.  For a polygon the flat coordinate list
  is read in pairs \<open>(c[i], c[i+1])\<close> for \<open>i = 0, 2, ..\<close> below \<open>len(c) - 1\<close>.  With an
  annotation type other than the three, \<open>inst\<close> is never assigned and reading it at the
  first row raises \<open>UnboundLocalError\<close>.  A coordinate that is not a number is a
  \<open>TypeError\<close>.
\<close>

fun coord_pairs :: "json list \<Rightarrow> py_error + (real \<times> real) list" where
  "coord_pairs (a # b # rest) =
     (case as_num a of Inl e \<Rightarrow> Inl e | Inr x \<Rightarrow>
       (case as_num b of Inl e \<Rightarrow> Inl e | Inr y \<Rightarrow>
         (case coord_pairs rest of Inl e \<Rightarrow> Inl e | Inr ps \<Rightarrow> Inr ((x, y) # ps))))"
| "coord_pairs _ = Inr []"

definition polygon_coords :: "json \<Rightarrow> py_error + (real \<times> real) list" where
  "polygon_coords inst_coords =
     (case inst_coords of
        JArr cs \<Rightarrow> coord_pairs cs
      | JStr s \<Rightarrow> (if length s \<le> 1 then Inr [] else Inl TypeError)
      | JObj kvs \<Rightarrow> (if length kvs \<le> 1 then Inr [] else Inl KeyError)
      | _ \<Rightarrow> Inl TypeError)"

definition make_inst :: "'g shapely \<Rightarrow> string \<Rightarrow> json \<Rightarrow> py_error + 'g" where
  "make_inst S annot_type inst_data =
     (if annot_type = ''bbox'' then
        ebind (py_getitem inst_data ''points'') (\<lambda>inst_coords.
        ebind (py_getitem inst_coords ''x1'') (\<lambda>jx1.
        ebind (py_getitem inst_coords ''x2'') (\<lambda>jx2.
        ebind (py_getitem inst_coords ''y1'') (\<lambda>jy1.
        ebind (py_getitem inst_coords ''y2'') (\<lambda>jy2.
        ebind (as_num jx1) (\<lambda>x1. ebind (as_num jx2) (\<lambda>x2.
        ebind (as_num jy1) (\<lambda>y1. ebind (as_num jy2) (\<lambda>y2.
        Inr (sh_box S (min x1 x2) (min y1 y2) (max x1 x2) (max y1 y2)))))))))))
      else if annot_type = ''polygon'' then
        ebind (py_getitem inst_data ''points'') (\<lambda>inst_coords.
        ebind (polygon_coords inst_coords) (\<lambda>shapely_format.
        sh_Polygon S shapely_format))
      else if annot_type = ''point'' then
        ebind (py_getitem inst_data ''x'') (\<lambda>jx.
        ebind (py_getitem inst_data ''y'') (\<lambda>jy.
        ebind (as_num jx) (\<lambda>x. ebind (as_num jy) (\<lambda>y.
        Inr (sh_Point S x y)))))
      else Inl UnboundLocalError)"

text \<open>
  Lines 566--592: \<open>projects_shaply_objs\<close>, a dict from folder name to the list of its
  valid instances, in insertion order.  A folder gets its key at its first row, also when
  that row's geometry is invalid.
\<close>

fun dict_setdefault :: "(string \<times> 'a list) list \<Rightarrow> string \<Rightarrow> (string \<times> 'a list) list" where
  "dict_setdefault [] k = [(k, [])]"
| "dict_setdefault ((k', v) # d) k = (if k' = k then (k', v) # d else (k', v) # dict_setdefault d k)"

fun dict_append :: "(string \<times> 'a list) list \<Rightarrow> string \<Rightarrow> 'a \<Rightarrow> (string \<times> 'a list) list" where
  "dict_append [] k x = []"
| "dict_append ((k', v) # d) k x =
     (if k' = k then (k', v @ [x]) # d else (k', v) # dict_append d k x)"

fun shapely_objs :: "'g shapely \<Rightarrow> string \<Rightarrow> df_row list \<Rightarrow> (string \<times> 'g inst_data list) list
    \<Rightarrow> py_error + (string \<times> 'g inst_data list) list" where
  "shapely_objs S annot_type [] objs = Inr objs"
| "shapely_objs S annot_type (row # rows) objs =
     (let objs1 = dict_setdefault objs (folderName row) in
      case make_inst S annot_type (meta row) of
        Inl e \<Rightarrow> Inl e
      | Inr inst \<Rightarrow>
          if sh_is_valid S inst then
            shapely_objs S annot_type rows
              (dict_append objs1 (folderName row)
                 (inst, className row, creatorEmail row, attributes row))
          else shapely_objs S annot_type rows objs1)"

text \<open>The \<open>visited_instances\<close> dict: one flag per instance of each folder.\<close>

definition visited_get :: "(string \<times> bool list) list \<Rightarrow> string \<Rightarrow> nat \<Rightarrow> py_error + bool" where
  "visited_get visited proj i =
     (case map_of visited proj of
        None \<Rightarrow> Inl KeyError
      | Some flags \<Rightarrow> if i < length flags then Inr (flags ! i) else Inl IndexError)"

definition visited_set :: "(string \<times> bool list) list \<Rightarrow> string \<Rightarrow> nat
    \<Rightarrow> py_error + (string \<times> bool list) list" where
  "visited_set visited proj i =
     (case map_of visited proj of
        None \<Rightarrow> Inl KeyError
      | Some flags \<Rightarrow>
          if i < length flags
          then Inr (map (\<lambda>(p, fl). if p = proj then (p, fl[i := True]) else (p, fl)) visited)
          else Inl IndexError)"

text \<open>
  \<open>max_score\<close> starts at \<open>0\<close> for areal types and at \<open>float("-inf")\<close> otherwise;
  \<open>None\<close> stands for minus infinity.
\<close>

definition score_gt :: "real \<Rightarrow> real option \<Rightarrow> bool" where
  "score_gt score max_score = (case max_score of None \<Rightarrow> True | Some m \<Rightarrow> score > m)"

text \<open>
  Every invocation of the scorer is recorded with the two instances it was given, so that
  the order of the class test and the scorer call can be observed.
\<close>

type_synonym 'g call = "'g inst_data \<times> 'g inst_data"

text \<open>
  Lines 615--623: the search of one other folder.  The scorer is called on every
  unvisited instance of that folder; the class test comes after, together with the
  comparison with the best score so far.
\<close>

fun best_match :: "'g shapely \<Rightarrow> (string \<times> bool list) list \<Rightarrow> string \<Rightarrow> 'g inst_data
    \<Rightarrow> (nat \<times> 'g inst_data) list
    \<Rightarrow> (real option \<times> 'g inst_data option \<times> int) \<times> 'g call list
    \<Rightarrow> py_error + ((real option \<times> 'g inst_data option \<times> int) \<times> 'g call list)" where
  "best_match S visited other_proj curr_inst_data [] st = Inr st"
| "best_match S visited other_proj curr_inst_data ((other_id, other) # rest)
       ((max_score, max_inst_data, max_inst_id), calls) =
     (case visited_get visited other_proj other_id of
        Inl e \<Rightarrow> Inl e
      | Inr True \<Rightarrow>
          best_match S visited other_proj curr_inst_data rest ((max_score, max_inst_data, max_inst_id), calls)
      | Inr False \<Rightarrow>
          (case instance_consensus S (fst curr_inst_data) (fst other) of
             Inl e \<Rightarrow> Inl e
           | Inr score \<Rightarrow>
               if score_gt score max_score \<and> fst (snd other) = fst (snd curr_inst_data) then
                 best_match S visited other_proj curr_inst_data rest
                   ((Some score, Some other, int other_id), calls @ [(curr_inst_data, other)])
               else
                 best_match S visited other_proj curr_inst_data rest
                   ((max_score, max_inst_data, max_inst_id), calls @ [(curr_inst_data, other)])))"

text \<open>
  Lines 603--626: the match group of the current instance.  The current instance joins
  the group when the iteration reaches its own folder; every other folder contributes its
  best unvisited instance, if any.
\<close>

fun match_projects :: "'g shapely \<Rightarrow> string \<Rightarrow> string \<Rightarrow> nat \<Rightarrow> 'g inst_data
    \<Rightarrow> (string \<times> 'g inst_data list) list
    \<Rightarrow> 'g match_data list \<times> (string \<times> bool list) list \<times> 'g call list
    \<Rightarrow> py_error + ('g match_data list \<times> (string \<times> bool list) list \<times> 'g call list)" where
  "match_projects S annot_type curr_proj curr_id curr_inst_data [] st = Inr st"
| "match_projects S annot_type curr_proj curr_id curr_inst_data ((other_proj, other_proj_instances) # rest)
       (max_instances, visited, calls) =
     (if curr_proj = other_proj then
        (case visited_set visited curr_proj curr_id of
           Inl e \<Rightarrow> Inl e
         | Inr visited' \<Rightarrow>
             match_projects S annot_type curr_proj curr_id curr_inst_data rest
               (max_instances @ [(curr_proj, curr_inst_data)], visited', calls))
      else
        (case best_match S visited other_proj curr_inst_data (enumerate 0 other_proj_instances)
                ((if annot_type \<in> {''polygon'', ''bbox''} then Some 0 else None, None, - 1), calls) of
           Inl e \<Rightarrow> Inl e
         | Inr ((max_score, None, max_inst_id), calls') \<Rightarrow>
             match_projects S annot_type curr_proj curr_id curr_inst_data rest (max_instances, visited, calls')
         | Inr ((max_score, Some max_inst_data, max_inst_id), calls') \<Rightarrow>
             (if max_inst_id < 0 then Inl IndexError else
               (case visited_set visited other_proj (nat max_inst_id) of
                  Inl e \<Rightarrow> Inl e
                | Inr visited' \<Rightarrow>
                    match_projects S annot_type curr_proj curr_id curr_inst_data rest
                      (max_instances @ [(other_proj, max_inst_data)], visited', calls')))))"

text \<open>
  Lines 638--644: the sum, over the members of the group that belong to another folder,
  of the pairwise score, where a score \<open>\<le> 0\<close> counts as \<open>1.0\<close>.
\<close>

fun proj_cons_loop :: "'g shapely \<Rightarrow> 'g match_data \<Rightarrow> 'g match_data list \<Rightarrow> real \<times> 'g call list
    \<Rightarrow> py_error + (real \<times> 'g call list)" where
  "proj_cons_loop S curr_match_data [] st = Inr st"
| "proj_cons_loop S curr_match_data (other_match_data # rest) (proj_cons, calls) =
     (if fst curr_match_data \<noteq> fst other_match_data then
        (case instance_consensus S (fst (snd curr_match_data)) (fst (snd other_match_data)) of
           Inl e \<Rightarrow> Inl e
         | Inr score \<Rightarrow>
             proj_cons_loop S curr_match_data rest
               (proj_cons + (if score \<le> 0 then 1 else score),
                calls @ [(snd curr_match_data, snd other_match_data)]))
      else proj_cons_loop S curr_match_data rest (proj_cons, calls))"

definition mk_row :: "'g shapely \<Rightarrow> string \<Rightarrow> nat \<Rightarrow> 'g match_data \<Rightarrow> real \<Rightarrow> result_row" where
  "mk_row S image_name instance_id m score =
     (case m of (proj, inst, cls, email, attrs) \<Rightarrow>
        \<lparr> r_creatorEmail = email, r_imageName = image_name, r_instanceId = instance_id,
          r_area = sh_area S inst, r_className = cls, r_attributes = attrs,
          r_folderName = proj, r_score = score \<rparr>)"

text \<open>
  Lines 637--652: one row per member of the group; the sum is divided by
  \<open>len(all_projects) - 1\<close>, the number of folders of the whole table minus one.
\<close>

fun score_rows :: "'g shapely \<Rightarrow> string \<Rightarrow> nat \<Rightarrow> nat \<Rightarrow> 'g match_data list \<Rightarrow> 'g match_data list
    \<Rightarrow> result_row list \<times> 'g call list \<Rightarrow> py_error + (result_row list \<times> 'g call list)" where
  "score_rows S image_name instance_id n_projects max_instances [] st = Inr st"
| "score_rows S image_name instance_id n_projects max_instances (curr_match_data # rest) (rows, calls) =
     (case proj_cons_loop S curr_match_data max_instances (0, calls) of
        Inl e \<Rightarrow> Inl e
      | Inr (proj_cons, calls') \<Rightarrow>
          if int n_projects - 1 = 0 then Inl ZeroDivisionError
          else score_rows S image_name instance_id n_projects max_instances rest
                 (rows @ [mk_row S image_name instance_id curr_match_data
                            (proj_cons / (real n_projects - 1))], calls'))"

text \<open>Lines 627--652: the rows of one match group.\<close>

definition group_rows :: "'g shapely \<Rightarrow> string \<Rightarrow> nat \<Rightarrow> nat \<Rightarrow> 'g match_data list \<Rightarrow> 'g call list
    \<Rightarrow> py_error + (result_row list \<times> 'g call list)" where
  "group_rows S image_name instance_id n_projects max_instances calls =
     (if length max_instances = 1 then
        Inr ([mk_row S image_name instance_id (max_instances ! 0) 0], calls)
      else score_rows S image_name instance_id n_projects max_instances max_instances ([], calls))"

text \<open>
  Lines 598--653: the loop over the instances of the current folder, and over the
  folders.  The state is the visited flags, the next instance id, the rows so far and the
  recorded scorer calls.
\<close>

type_synonym 'g match_state = "(string \<times> bool list) list \<times> nat \<times> result_row list \<times> 'g call list"

fun match_instances :: "'g shapely \<Rightarrow> string \<Rightarrow> string \<Rightarrow> nat \<Rightarrow> (string \<times> 'g inst_data list) list
    \<Rightarrow> string \<Rightarrow> (nat \<times> 'g inst_data) list \<Rightarrow> 'g match_state \<Rightarrow> py_error + 'g match_state" where
  "match_instances S annot_type image_name n_projects objs curr_proj [] st = Inr st"
| "match_instances S annot_type image_name n_projects objs curr_proj ((curr_id, curr_inst_data) # rest)
       (visited, instance_id, image_data, calls) =
     (case visited_get visited curr_proj curr_id of
        Inl e \<Rightarrow> Inl e
      | Inr True \<Rightarrow>
          match_instances S annot_type image_name n_projects objs curr_proj rest
            (visited, instance_id, image_data, calls)
      | Inr False \<Rightarrow>
          (case match_projects S annot_type curr_proj curr_id curr_inst_data objs ([], visited, calls) of
             Inl e \<Rightarrow> Inl e
           | Inr (max_instances, visited', calls') \<Rightarrow>
               (case group_rows S image_name instance_id n_projects max_instances calls' of
                  Inl e \<Rightarrow> Inl e
                | Inr (rows, calls'') \<Rightarrow>
                    match_instances S annot_type image_name n_projects objs curr_proj rest
                      (visited', instance_id + 1, image_data @ rows, calls''))))"

fun match_all :: "'g shapely \<Rightarrow> string \<Rightarrow> string \<Rightarrow> nat \<Rightarrow> (string \<times> 'g inst_data list) list
    \<Rightarrow> (string \<times> 'g inst_data list) list \<Rightarrow> 'g match_state \<Rightarrow> py_error + 'g match_state" where
  "match_all S annot_type image_name n_projects objs [] st = Inr st"
| "match_all S annot_type image_name n_projects objs ((curr_proj, curr_proj_instances) # rest) st =
     (case match_instances S annot_type image_name n_projects objs curr_proj
             (enumerate 0 curr_proj_instances) st of
        Inl e \<Rightarrow> Inl e
      | Inr st' \<Rightarrow> match_all S annot_type image_name n_projects objs rest st')"

text \<open>
  \<open>image_consensus(df, image_name, annot_type)\<close>, returning the rows of \<open>image_data\<close>
  together with the recorded scorer calls.  \<open>all_projects\<close> is the set of folder names
  of the whole table, not only of the image's rows.
\<close>

definition image_consensus_traced :: "'g shapely \<Rightarrow> df_row list \<Rightarrow> string \<Rightarrow> string
    \<Rightarrow> py_error + (result_row list \<times> 'g call list)" where
  "image_consensus_traced S df image_name annot_type =
     (let image_df = filter (\<lambda>row. imageName row = image_name) df;
          all_projects = remdups (map folderName df)
      in case shapely_objs S annot_type image_df [] of
           Inl e \<Rightarrow> Inl e
         | Inr projects_shaply_objs \<Rightarrow>
             (let visited_instances =
                    map (\<lambda>(proj, instances). (proj, replicate (length instances) False))
                        projects_shaply_objs
              in case match_all S annot_type image_name (length all_projects)
                        projects_shaply_objs projects_shaply_objs
                        (visited_instances, 0, [], []) of
                   Inl e \<Rightarrow> Inl e
                 | Inr (visited, instance_id, image_data, calls) \<Rightarrow> Inr (image_data, calls)))"

definition image_consensus :: "'g shapely \<Rightarrow> df_row list \<Rightarrow> string \<Rightarrow> string
    \<Rightarrow> py_error + result_row list" where
  "image_consensus S df image_name annot_type =
     (case image_consensus_traced S df image_name annot_type of
        Inl e \<Rightarrow> Inl e
      | Inr (image_data, calls) \<Rightarrow> Inr image_data)"

definition clamped_score :: "'g shapely \<Rightarrow> 'g match_data \<Rightarrow> 'g match_data \<Rightarrow> real" where
  "clamped_score S c m =
     (case instance_consensus S (fst (snd c)) (fst (snd m)) of
        Inl e \<Rightarrow> 0
      | Inr score \<Rightarrow> if score \<le> 0 then 1 else score)"

definition other_members :: "'g match_data \<Rightarrow> 'g match_data list \<Rightarrow> 'g match_data list" where
  "other_members c g = filter (\<lambda>m. fst c \<noteq> fst m) g"

definition member_of :: "(string \<times> 'g inst_data list) list \<Rightarrow> 'g match_data \<Rightarrow> bool" where
  "member_of objs m = (\<exists>insts. (fst m, insts) \<in> set objs \<and> snd m \<in> set insts)"

definition row_of_member :: "result_row \<Rightarrow> 'g match_data \<Rightarrow> bool" where
  "row_of_member r m \<longleftrightarrow>
     r_folderName r = fst m \<and> r_className r = fst (snd (snd m)) \<and>
     r_creatorEmail r = fst (snd (snd (snd m))) \<and> r_attributes r = snd (snd (snd (snd m)))"

definition rows_ok :: "('g match_data \<Rightarrow> bool) \<Rightarrow> nat \<Rightarrow> nat \<Rightarrow> result_row list \<Rightarrow> bool" where
  "rows_ok P lo hi rows \<longleftrightarrow>
     (\<forall>r\<in>set rows. lo \<le> r_instanceId r \<and> r_instanceId r < hi \<and>
        (length (filter (\<lambda>r'. r_instanceId r' = r_instanceId r) rows) = 1 \<longrightarrow> r_score r = 0) \<and>
        (\<forall>r'\<in>set rows. r_instanceId r' = r_instanceId r \<longrightarrow> r_className r' = r_className r) \<and>
        (\<exists>m. P m \<and> row_of_member r m))"

definition from_row :: "'g shapely \<Rightarrow> string \<Rightarrow> df_row \<Rightarrow> 'g match_data \<Rightarrow> bool" where
  "from_row S ty row m \<longleftrightarrow>
     folderName row = fst m \<and> make_inst S ty (meta row) = Inr (fst (snd m)) \<and>
     sh_is_valid S (fst (snd m)) \<and> className row = fst (snd (snd m)) \<and>
     creatorEmail row = fst (snd (snd (snd m))) \<and> attributes row = snd (snd (snd (snd m)))"

definition mean_over_represented :: "'g shapely \<Rightarrow> 'g match_data \<Rightarrow> 'g match_data list \<Rightarrow> real" where
  "mean_over_represented S c g =
     sum_list (map (clamped_score S c) (other_members c g)) / real (length (other_members c g))"

definition ex_box_row :: "string \<Rightarrow> string \<Rightarrow> string \<Rightarrow> real \<Rightarrow> real \<Rightarrow> real \<Rightarrow> real \<Rightarrow> df_row" where
  "ex_box_row img folder cls x1 y1 x2 y2 =
     \<lparr> imageName = img, folderName = folder, className = cls, creatorEmail = JNull,
       attributes = JNull,
       meta = JObj [(''points'', JObj [(''x1'', JNum x1), (''x2'', JNum x2),
                                       (''y1'', JNum y1), (''y2'', JNum y2)])] \<rparr>"

definition ex_member :: "string \<Rightarrow> string \<Rightarrow> rgeom match_data" where
  "ex_member folder cls = (folder, Rect 0 0 2 2, cls, JNull, JNull)"

definition ex_df_three :: "df_row list" where
  "ex_df_three = [ex_box_row ''img'' ''A'' ''car'' 0 0 2 2, ex_box_row ''img'' ''B'' ''car'' 0 0 2 2,
                  ex_box_row ''other'' ''C'' ''car'' 0 0 2 2]"

definition ex_df_mixed :: "df_row list" where
  "ex_df_mixed = [ex_box_row ''img'' ''A'' ''car'' 0 0 2 2, ex_box_row ''img'' ''B'' ''dog'' 0 0 2 2]"

text \<open>
  The rows of a match group as the claims describe them, with the divisor \<open>n - 1\<close> made
  explicit, and what is known of the groups the matcher forms.
\<close>

definition scored_rows :: "'g shapely \<Rightarrow> string \<Rightarrow> nat \<Rightarrow> nat \<Rightarrow> 'g match_data list \<Rightarrow> result_row list" where
  "scored_rows S img n i g =
     (if length g = 1 then [mk_row S img i (g ! 0) 0]
      else map (\<lambda>c. mk_row S img i c
                  (sum_list (map (clamped_score S c) (other_members c g)) / (real n - 1))) g)"

definition scorer_ok :: "'g shapely \<Rightarrow> 'g match_data list \<Rightarrow> bool" where
  "scorer_ok S g \<longleftrightarrow>
     (\<forall>c\<in>set g. \<forall>m\<in>set (other_members c g).
         \<exists>s. instance_consensus S (fst (snd c)) (fst (snd m)) = Inr s)"

definition groups_ok :: "'g shapely \<Rightarrow> ('g match_data \<Rightarrow> bool) \<Rightarrow> 'g match_data list list \<Rightarrow> bool" where
  "groups_ok S Q gs \<longleftrightarrow> (\<forall>g\<in>set gs. (\<forall>m\<in>set g. Q m) \<and> (length g \<noteq> 1 \<longrightarrow> scorer_ok S g))"

section \<open>More of Python on decoded JSON\<close>

text \<open>Truth value of a decoded JSON value, as \<open>if x:\<close> and \<open>not x\<close> test it.\<close>

fun py_truthy :: "json \<Rightarrow> bool" where
  "py_truthy JNull = False"
| "py_truthy (JBool b) = b"
| "py_truthy (JNum r) = (r \<noteq> 0)"
| "py_truthy (JStr s) = (s \<noteq> [])"
| "py_truthy (JArr xs) = (xs \<noteq> [])"
| "py_truthy (JObj kvs) = (kvs \<noteq> [])"

text \<open>
  \<open>for x in obj\<close>: a list yields its elements, a dict its keys, a string its
  characters; anything else is not iterable.
\<close>

fun py_iter :: "json \<Rightarrow> py_error + json list" where
  "py_iter (JArr xs) = Inr xs"
| "py_iter (JObj kvs) = Inr (map (\<lambda>kv. JStr (fst kv)) kvs)"
| "py_iter (JStr s) = Inr (map (\<lambda>c. JStr [c]) s)"
| "py_iter _ = Inl TypeError"

text \<open>
  \<open>a == b\<close> on the values that serve as keys and names: numbers and booleans compare by
  numeric value (\<open>True == 1\<close>), everything else by structure.
\<close>

definition py_eq :: "json \<Rightarrow> json \<Rightarrow> bool" where
  "py_eq a b =
     (case (py_num a, py_num b) of
        (Some x, Some y) \<Rightarrow> x = y
      | (None, None) \<Rightarrow> a = b
      | _ \<Rightarrow> False)"

text \<open>
  An elementwise comparison of a pandas column with a value: a missing cell equals
  nothing.
\<close>

definition pandas_eq :: "json \<Rightarrow> json \<Rightarrow> bool" where
  "pandas_eq c v \<longleftrightarrow> c \<noteq> JNull \<and> v \<noteq> JNull \<and> py_eq c v"

text \<open>\<open>x in some_list\<close> compares with \<open>==\<close>.\<close>

definition list_contains :: "json list \<Rightarrow> json \<Rightarrow> bool" where
  "list_contains xs x = list_ex (\<lambda>y. py_eq y x) xs"

text \<open>
  A dict keyed by decoded JSON values, in insertion order.  Lists and dicts are not
  hashable: using one as a key, or testing it with \<open>in\<close>, raises \<open>TypeError\<close>.
\<close>

fun hashable :: "json \<Rightarrow> bool" where
  "hashable (JArr xs) = False"
| "hashable (JObj kvs) = False"
| "hashable _ = True"

fun jdict_find :: "(json \<times> 'v) list \<Rightarrow> json \<Rightarrow> 'v option" where
  "jdict_find [] k = None"
| "jdict_find ((k', v) # d) k = (if py_eq k' k then Some v else jdict_find d k)"

definition jdict_get :: "(json \<times> 'v) list \<Rightarrow> json \<Rightarrow> py_error + 'v option" where
  "jdict_get d k = (if hashable k then Inr (jdict_find d k) else Inl TypeError)"

fun jdict_put :: "(json \<times> 'v) list \<Rightarrow> json \<Rightarrow> 'v \<Rightarrow> (json \<times> 'v) list" where
  "jdict_put [] k v = [(k, v)]"
| "jdict_put ((k', v') # d) k v = (if py_eq k' k then (k', v) # d else (k', v') # jdict_put d k v)"

definition jdict_set :: "(json \<times> 'v) list \<Rightarrow> json \<Rightarrow> 'v \<Rightarrow> py_error + (json \<times> 'v) list" where
  "jdict_set d k v = (if hashable k then Inr (jdict_put d k v) else Inl TypeError)"

section \<open>The export directory\<close>

text \<open>
  The project root is a directory tree whose files hold decoded JSON.  A path found under
  the root is the list of directory names between the root and the entry, the entry's
  name, and the entry itself.  Directory listings are in the order the file system
  returns them.
\<close>

datatype fsnode = File json | Dir "(string \<times> fsnode) list"

type_synonym path = "string list \<times> string \<times> fsnode"

fun entries :: "fsnode \<Rightarrow> (string \<times> fsnode) list" where
  "entries (Dir es) = es"
| "entries (File j) = []"

fun is_file :: "fsnode \<Rightarrow> bool" where
  "is_file (File j) = True"
| "is_file (Dir es) = False"

fun is_dir :: "fsnode \<Rightarrow> bool" where
  "is_dir (Dir es) = True"
| "is_dir (File j) = False"

text \<open>
  \<open>entry.suffix == ".json"\<close>: pathlib's suffix starts at the last dot of the name, unless
  that dot is the first character.
\<close>

definition suffix_is_json :: "string \<Rightarrow> bool" where
  "suffix_is_json name \<longleftrightarrow> suffix ''.json'' name \<and> length name > 5"

text \<open>
  \<open>node.rglob("*" + pat)\<close>: every entry below the node, file or directory, whose name
  ends with \<open>pat\<close>; the matches of a directory come before those of its subdirectories.
\<close>

fun rglob :: "string \<Rightarrow> string list \<Rightarrow> fsnode \<Rightarrow> path list" where
  "rglob pat dirs (File j) = []"
| "rglob pat dirs (Dir es) =
     map (\<lambda>e. (dirs, fst e, snd e)) (filter (\<lambda>e. suffix pat (fst e)) es)
     @ concat (map (\<lambda>e. rglob pat (dirs @ [fst e]) (snd e)) es)"

fun lookup_path :: "fsnode \<Rightarrow> string list \<Rightarrow> fsnode option" where
  "lookup_path node [] = Some node"
| "lookup_path (File j) (d # ds) = None"
| "lookup_path (Dir es) (d # ds) =
     (case map_of es d of None \<Rightarrow> None | Some child \<Rightarrow> lookup_path child ds)"

text \<open>
  Lines 286--299: the annotation paths.  Without \<open>folder_names\<close>, the JSON files
  directly under the root and everything matching \<open>*.json\<close> below each directory other
  than \<open>classes\<close>; with \<open>folder_names\<close>, everything matching \<open>*.json\<close> below each
  named folder.  A folder name is given by its path components relative to the root.
\<close>

definition collect_paths :: "fsnode \<Rightarrow> string list list option \<Rightarrow> path list" where
  "collect_paths project_root folder_names =
     (case folder_names of
        None \<Rightarrow>
          concat (map (\<lambda>entry.
              if is_file (snd entry) \<and> suffix_is_json (fst entry) then [([], fst entry, snd entry)]
              else if is_dir (snd entry) \<and> fst entry \<noteq> ''classes''
                then rglob ''.json'' [fst entry] (snd entry)
              else []) (entries project_root))
      | Some names \<Rightarrow>
          concat (map (\<lambda>folder_name.
              case lookup_path project_root folder_name of
                None \<Rightarrow> []
              | Some node \<Rightarrow> rglob ''.json'' folder_name node) names))"

text \<open>
  \<open>name.split(sep)\<close> has exactly two parts when \<open>sep\<close> occurs exactly once; the first
  part is the text before it.  \<open>find_sep\<close> finds the first occurrence of a separator.
\<close>

fun find_sep :: "string \<Rightarrow> string \<Rightarrow> (string \<times> string) option" where
  "find_sep sep [] = (if sep = [] then Some ([], []) else None)"
| "find_sep sep (c # cs) =
     (if prefix sep (c # cs) then Some ([], drop (length sep) (c # cs))
      else map_option (\<lambda>ba. (c # fst ba, snd ba)) (find_sep sep cs))"

definition split_two :: "string \<Rightarrow> string \<Rightarrow> string option" where
  "split_two sep name =
     (case find_sep sep name of
        None \<Rightarrow> None
      | Some (before, after) \<Rightarrow>
          (case find_sep sep after of None \<Rightarrow> Some before | Some ba \<Rightarrow> None))"

section \<open>The aggregated table\<close>

text \<open>
  The table is built column by column in \<open>annotation_data\<close>; here it is the list of its
  rows, each row giving a value to every column (\<open>None\<close> where the appended dict has no
  such key).  A Python dict with string keys is an association list; \<open>update\<close> puts the
  new entries in front, where lookup finds them first.
\<close>

type_synonym row = "(string \<times> json) list"

datatype log_record = Info string | Warning string json

definition base_columns :: "string list" where
  "base_columns =
     [''imageName'', ''imageHeight'', ''imageWidth'', ''imageStatus'', ''imagePinned'',
      ''instanceId'', ''className'', ''attributeGroupName'', ''attributeName'', ''type'',
      ''error'', ''locked'', ''visible'', ''trackingId'', ''probability'', ''pointLabels'',
      ''meta'', ''classColor'', ''groupId'', ''createdAt'', ''creatorRole'', ''creationType'',
      ''creatorEmail'', ''updatedAt'', ''updatorRole'', ''updatorEmail'', ''folderName'',
      ''imageAnnotator'', ''imageQA'']"

definition table_columns :: "bool \<Rightarrow> bool \<Rightarrow> string list" where
  "table_columns include_comments include_tags =
     base_columns @ (if include_comments then [''commentResolved''] else [])
                  @ (if include_tags then [''tag''] else [])"

definition dict_update :: "(string \<times> json) list \<Rightarrow> (string \<times> json) list \<Rightarrow> (string \<times> json) list" where
  "dict_update d e = e @ d"

definition append_annotation :: "string list \<Rightarrow> (string \<times> json) list \<Rightarrow> row" where
  "append_annotation columns annotation_dict =
     map (\<lambda>annotation_key.
            (annotation_key,
             case map_of annotation_dict annotation_key of Some v \<Rightarrow> v | None \<Rightarrow> JNull))
         columns"

definition cell :: "row \<Rightarrow> string \<Rightarrow> json" where
  "cell r column = (case map_of r column of Some v \<Rightarrow> v | None \<Rightarrow> JNull)"

text \<open>
  The pandas functions the code calls are parameters: \<open>pd.to_datetime\<close> on a decoded
  value, and the conversion of one \<open>probability\<close> cell by \<open>astype(float)\<close>.
\<close>

record pandas =
  pd_to_datetime :: "json \<Rightarrow> py_error + json"
  pd_float :: "json \<Rightarrow> py_error + json"

definition get_image_metadata :: "string \<Rightarrow> json \<Rightarrow> py_error + (string \<times> json) list" where
  "get_image_metadata image_name annotations =
     ebind (py_getitem annotations ''metadata'') (\<lambda>md.
     ebind (py_get md ''height'') (\<lambda>height.
     ebind (py_get md ''width'') (\<lambda>width.
     ebind (py_get md ''status'') (\<lambda>status.
     ebind (py_get md ''pinned'') (\<lambda>pinned.
     ebind (py_get md ''annotatorEmail'') (\<lambda>annotator.
     ebind (py_get md ''qaEmail'') (\<lambda>qa.
     Inr [(''imageName'', JStr image_name), (''imageHeight'', height), (''imageWidth'', width),
          (''imageStatus'', status), (''imagePinned'', pinned), (''imageAnnotator'', annotator),
          (''imageQA'', qa)])))))))"

definition actor_fields :: "json \<Rightarrow> py_error + (json \<times> json)" where
  "actor_fields actor =
     (if py_truthy actor then
        ebind (py_get actor ''email'') (\<lambda>email.
        ebind (py_get actor ''role'') (\<lambda>role. Inr (email, role)))
      else Inr (JNull, JNull))"

definition get_user_metadata :: "pandas \<Rightarrow> json \<Rightarrow> py_error + (string \<times> json) list" where
  "get_user_metadata P annotation =
     ebind (py_get annotation ''createdAt'') (\<lambda>created_at_raw.
     ebind (pd_to_datetime P created_at_raw) (\<lambda>annotation_created_at.
     ebind (py_get annotation ''createdBy'') (\<lambda>annotation_created_by.
     ebind (actor_fields annotation_created_by) (\<lambda>creator.
     ebind (py_get annotation ''creationType'') (\<lambda>annotation_creation_type.
     ebind (py_get annotation ''updatedAt'') (\<lambda>updated_at_raw.
     ebind (pd_to_datetime P updated_at_raw) (\<lambda>annotation_updated_at.
     ebind (py_get annotation ''updatedBy'') (\<lambda>annotation_updated_by.
     ebind (actor_fields annotation_updated_by) (\<lambda>updator.
     Inr [(''createdAt'', annotation_created_at), (''creatorRole'', snd creator),
          (''creatorEmail'', fst creator), (''creationType'', annotation_creation_type),
          (''updatedAt'', annotation_updated_at), (''updatorRole'', snd updator),
          (''updatorEmail'', fst updator)])))))))))"

section \<open>Aggregation\<close>

text \<open>
  Lines 226--239: the two look-up tables built from \<open>classes.json\<close>:
  \<open>class_name_to_color\<close> and \<open>class_group_name_to_values\<close>.
\<close>

type_synonym color_table = "(json \<times> json) list"
type_synonym group_table = "(json \<times> (json \<times> json list) list) list"

fun load_attributes :: "json list \<Rightarrow> json list \<Rightarrow> py_error + json list" where
  "load_attributes [] names = Inr names"
| "load_attributes (attribute # rest) names =
     (case py_getitem attribute ''name'' of
        Inl e \<Rightarrow> Inl e
      | Inr n \<Rightarrow> load_attributes rest (names @ [n]))"

fun load_groups :: "json list \<Rightarrow> (json \<times> json list) list \<Rightarrow> py_error + (json \<times> json list) list" where
  "load_groups [] groups = Inr groups"
| "load_groups (attribute_group # rest) groups =
     (case py_getitem attribute_group ''name'' of
        Inl e \<Rightarrow> Inl e
      | Inr group_name \<Rightarrow>
          (case jdict_set groups group_name [] of
             Inl e \<Rightarrow> Inl e
           | Inr groups1 \<Rightarrow>
               (case ebind (py_getitem attribute_group ''attributes'') py_iter of
                  Inl e \<Rightarrow> Inl e
                | Inr attrs \<Rightarrow>
                    (case load_attributes attrs [] of
                       Inl e \<Rightarrow> Inl e
                     | Inr names \<Rightarrow> load_groups rest (jdict_put groups1 group_name names)))))"

fun load_classes :: "json list \<Rightarrow> color_table \<times> group_table \<Rightarrow> py_error + (color_table \<times> group_table)" where
  "load_classes [] tables = Inr tables"
| "load_classes (annotation_class # rest) (class_name_to_color, class_group_name_to_values) =
     (case py_getitem annotation_class ''name'' of
        Inl e \<Rightarrow> Inl e
      | Inr name \<Rightarrow>
          (case py_getitem annotation_class ''color'' of
             Inl e \<Rightarrow> Inl e
           | Inr color \<Rightarrow>
               (case jdict_set class_name_to_color name color of
                  Inl e \<Rightarrow> Inl e
                | Inr colors1 \<Rightarrow>
                    (case ebind (py_getitem annotation_class ''attribute_groups'') py_iter of
                       Inl e \<Rightarrow> Inl e
                     | Inr attribute_groups \<Rightarrow>
                         (case load_groups attribute_groups [] of
                            Inl e \<Rightarrow> Inl e
                          | Inr groups \<Rightarrow>
                              load_classes rest
                                (colors1, jdict_put class_group_name_to_values name groups))))))"

text \<open>Lines 354--373: the geometry payload of an instance, by its type.\<close>

definition annotation_meta :: "json \<Rightarrow> json \<Rightarrow> py_error + json" where
  "annotation_meta annotation_type annotation =
     (if list_contains [JStr ''bbox'', JStr ''polygon'', JStr ''polyline'', JStr ''cuboid'']
           annotation_type then
        ebind (py_getitem annotation ''points'') (\<lambda>points. Inr (JObj [(''points'', points)]))
      else if py_eq annotation_type (JStr ''point'') then
        ebind (py_getitem annotation ''x'') (\<lambda>x.
        ebind (py_getitem annotation ''y'') (\<lambda>y. Inr (JObj [(''x'', x), (''y'', y)])))
      else if py_eq annotation_type (JStr ''ellipse'') then
        ebind (py_getitem annotation ''cx'') (\<lambda>cx.
        ebind (py_getitem annotation ''cy'') (\<lambda>cy.
        ebind (py_getitem annotation ''rx'') (\<lambda>rx.
        ebind (py_getitem annotation ''ry'') (\<lambda>ry.
        ebind (py_getitem annotation ''angle'') (\<lambda>angle.
        Inr (JObj [(''cx'', cx), (''cy'', cy), (''rx'', rx), (''ry'', ry), (''angle'', angle)]))))))
      else if py_eq annotation_type (JStr ''mask'') then
        ebind (py_getitem annotation ''parts'') (\<lambda>parts. Inr (JObj [(''parts'', parts)]))
      else if py_eq annotation_type (JStr ''template'') then
        ebind (py_getitem annotation ''connections'') (\<lambda>connections.
        ebind (py_getitem annotation ''points'') (\<lambda>points.
        Inr (JObj [(''connections'', connections), (''points'', points)])))
      else Inr JNull)"

text \<open>
  Lines 405--449: the loop over the attributes of an instance.  The state is
  \<open>num_added\<close>, the rows and the log.  \<open>mk_dict\<close> builds the dict of the row from the
  group and the name of the attribute.
\<close>

type_synonym attr_state = "nat \<times> row list \<times> log_record list"

fun process_attributes :: "group_table \<Rightarrow> json \<Rightarrow> string list \<Rightarrow> (json \<Rightarrow> json \<Rightarrow> (string \<times> json) list)
    \<Rightarrow> json list \<Rightarrow> attr_state \<Rightarrow> py_error + attr_state" where
  "process_attributes class_group_name_to_values annotation_class_name columns mk_dict [] st = Inr st"
| "process_attributes class_group_name_to_values annotation_class_name columns mk_dict
       (attribute # rest) (num_added, rows, logs) =
     (case py_get attribute ''groupName'' of
        Inl e \<Rightarrow> Inl e
      | Inr attribute_group \<Rightarrow>
     (case py_get attribute ''name'' of
        Inl e \<Rightarrow> Inl e
      | Inr attribute_name \<Rightarrow>
     (case jdict_find class_group_name_to_values annotation_class_name of
        None \<Rightarrow> Inl KeyError
      | Some groups \<Rightarrow>
     (case jdict_get groups attribute_group of
        Inl e \<Rightarrow> Inl e
      | Inr None \<Rightarrow>
          process_attributes class_group_name_to_values annotation_class_name columns mk_dict rest
            (num_added, rows,
             logs @ [Warning ''Annotation class group %s not in classes json. Skipping.''
                       attribute_group])
      | Inr (Some values) \<Rightarrow>
          if \<not> list_contains values attribute_name then
            process_attributes class_group_name_to_values annotation_class_name columns mk_dict rest
              (num_added, rows,
               logs @ [Warning ''Annotation class group value %s not in classes json. Skipping.''
                         attribute_name])
          else
            process_attributes class_group_name_to_values annotation_class_name columns mk_dict rest
              (num_added + 1,
               rows @ [append_annotation columns (mk_dict attribute_group attribute_name)],
               logs)))))"

text \<open>
  Lines 379--381: the folder name of a row is the name of the directory that holds the
  file, and \<open>None\<close> for a file directly under the root.
\<close>

definition folder_name_of :: "string list \<Rightarrow> json" where
  "folder_name_of dirs = (if dirs = [] then JNull else JStr (last dirs))"

text \<open>
  Lines 337--452: the body of the loop over the instances of a file.  The state is
  \<open>annotation_instance_id\<close>, the rows and the log.
\<close>

type_synonym inst_state = "nat \<times> row list \<times> log_record list"

definition instance_dict :: "string \<Rightarrow> nat \<Rightarrow> json \<Rightarrow> (string \<times> json) list \<Rightarrow> json \<Rightarrow> json \<Rightarrow> json
    \<Rightarrow> json \<Rightarrow> json \<Rightarrow> json \<Rightarrow> json \<Rightarrow> json \<Rightarrow> json \<Rightarrow> json \<Rightarrow> json
    \<Rightarrow> (string \<times> json) list \<Rightarrow> (string \<times> json) list \<Rightarrow> (string \<times> json) list" where
  "instance_dict image_name annotation_instance_id annotation_class_name attribute_fields
       annotation_type annotation_locked annotation_visible annotation_tracking_id
       annotation_meta_value annotation_error annotation_probability annotation_point_labels
       annotation_class_color annotation_group_id folder_name user_metadata image_metadata =
     dict_update (dict_update
       ([(''imageName'', JStr image_name),
         (''instanceId'', JNum (real annotation_instance_id)),
         (''className'', annotation_class_name)]
        @ attribute_fields @
        [(''type'', annotation_type),
         (''locked'', annotation_locked),
         (''visible'', annotation_visible),
         (''trackingId'', annotation_tracking_id),
         (''meta'', annotation_meta_value),
         (''error'', annotation_error),
         (''probability'', annotation_probability),
         (''pointLabels'', annotation_point_labels),
         (''classColor'', annotation_class_color),
         (''groupId'', annotation_group_id),
         (''folderName'', folder_name)])
       user_metadata) image_metadata"

definition process_instance :: "pandas \<Rightarrow> color_table \<Rightarrow> group_table \<Rightarrow> string list \<Rightarrow> string
    \<Rightarrow> (string \<times> json) list \<Rightarrow> string list \<Rightarrow> json \<Rightarrow> inst_state \<Rightarrow> py_error + inst_state" where
  "process_instance P class_name_to_color class_group_name_to_values columns image_name
       image_metadata dirs annotation st =
     (case st of (annotation_instance_id, rows, logs) \<Rightarrow>
      ebind (py_get_default annotation ''type'' (JStr ''mask'')) (\<lambda>annotation_type.
      ebind (py_get annotation ''className'') (\<lambda>annotation_class_name.
      ebind (if annotation_class_name = JNull then Inr None
             else jdict_get class_name_to_color annotation_class_name) (\<lambda>found.
      case found of
        None \<Rightarrow>
          Inr (annotation_instance_id, rows,
               logs @ [Warning ''Annotation class %s not found in classes json. Skipping.''
                         annotation_class_name])
      | Some annotation_class_color \<Rightarrow>
          ebind (py_get annotation ''groupId'') (\<lambda>annotation_group_id.
          ebind (py_get annotation ''locked'') (\<lambda>annotation_locked.
          ebind (py_get annotation ''visible'') (\<lambda>annotation_visible.
          ebind (py_get annotation ''trackingId'') (\<lambda>annotation_tracking_id.
          ebind (annotation_meta annotation_type annotation) (\<lambda>annotation_meta_value.
          ebind (py_get annotation ''error'') (\<lambda>annotation_error.
          ebind (py_get annotation ''probability'') (\<lambda>annotation_probability.
          ebind (py_get annotation ''pointLabels'') (\<lambda>annotation_point_labels.
          ebind (py_get annotation ''attributes'') (\<lambda>attributes.
          ebind (get_user_metadata P annotation) (\<lambda>user_metadata.
          (let folder_name = folder_name_of dirs;
               mk_dict = (\<lambda>attribute_fields.
                 instance_dict image_name annotation_instance_id annotation_class_name
                   attribute_fields annotation_type annotation_locked annotation_visible
                   annotation_tracking_id annotation_meta_value annotation_error
                   annotation_probability annotation_point_labels annotation_class_color
                   annotation_group_id folder_name user_metadata image_metadata)
           in ebind
                (if \<not> py_truthy attributes then
                   Inr (1, rows @ [append_annotation columns (mk_dict [])], logs)
                 else
                   ebind (py_iter attributes) (\<lambda>attribute_list.
                   process_attributes class_group_name_to_values annotation_class_name columns
                     (\<lambda>attribute_group attribute_name.
                        mk_dict [(''attributeGroupName'', attribute_group),
                                 (''attributeName'', attribute_name)])
                     attribute_list (0, rows, logs)))
                (\<lambda>added. case added of (num_added, rows', logs') \<Rightarrow>
                   Inr (if num_added > 0 then annotation_instance_id + 1
                        else annotation_instance_id, rows', logs')))))))))))))))))"

fun process_instances :: "pandas \<Rightarrow> color_table \<Rightarrow> group_table \<Rightarrow> string list \<Rightarrow> string
    \<Rightarrow> (string \<times> json) list \<Rightarrow> string list \<Rightarrow> json list \<Rightarrow> inst_state \<Rightarrow> py_error + inst_state" where
  "process_instances P colors groups columns image_name image_metadata dirs [] st = Inr st"
| "process_instances P colors groups columns image_name image_metadata dirs (annotation # rest) st =
     (case process_instance P colors groups columns image_name image_metadata dirs annotation st of
        Inl e \<Rightarrow> Inl e
      | Inr st' \<Rightarrow>
          process_instances P colors groups columns image_name image_metadata dirs rest st')"

text \<open>Lines 315--336: the comment rows and the tag rows of a file, when asked for.\<close>

fun process_comments :: "pandas \<Rightarrow> string list \<Rightarrow> (string \<times> json) list \<Rightarrow> json list \<Rightarrow> row list
    \<Rightarrow> py_error + row list" where
  "process_comments P columns image_metadata [] rows = Inr rows"
| "process_comments P columns image_metadata (annotation # rest) rows =
     (case
        ebind (py_getitem annotation ''resolved'') (\<lambda>comment_resolved.
        ebind (py_getitem annotation ''x'') (\<lambda>x.
        ebind (py_getitem annotation ''y'') (\<lambda>y.
        ebind (py_getitem annotation ''correspondence'') (\<lambda>correspondence.
        ebind (get_user_metadata P annotation) (\<lambda>user_metadata.
        Inr (append_annotation columns
               (dict_update (dict_update
                  [(''type'', JStr ''comment''),
                   (''meta'', JObj [(''x'', x), (''y'', y), (''comments'', correspondence)]),
                   (''commentResolved'', comment_resolved)]
                  user_metadata) image_metadata)))))))
      of Inl e \<Rightarrow> Inl e
       | Inr r \<Rightarrow> process_comments P columns image_metadata rest (rows @ [r]))"

definition process_tags :: "string list \<Rightarrow> (string \<times> json) list \<Rightarrow> json list \<Rightarrow> row list \<Rightarrow> row list" where
  "process_tags columns image_metadata tags rows =
     rows @ map (\<lambda>annotation.
                   append_annotation columns
                     (dict_update [(''type'', JStr ''tag''), (''tag'', annotation)] image_metadata))
                tags"

text \<open>
  Lines 307--452: the body of the loop over the annotation paths.  The file is opened and
  decoded before its name is looked at; a name that does not split in two at the type
  postfix is skipped.
\<close>

definition process_path :: "pandas \<Rightarrow> color_table \<Rightarrow> group_table \<Rightarrow> string list \<Rightarrow> bool \<Rightarrow> bool
    \<Rightarrow> string \<Rightarrow> path \<Rightarrow> row list \<times> log_record list \<Rightarrow> py_error + (row list \<times> log_record list)" where
  "process_path P colors groups columns include_comments include_tags type_postfix annotation_path st =
     (case annotation_path of (dirs, name, node) \<Rightarrow>
      case st of (rows, logs) \<Rightarrow>
      case node of
        Dir es \<Rightarrow> Inl IsADirectoryError
      | File annotation_json \<Rightarrow>
          (case split_two type_postfix name of
             None \<Rightarrow> Inr (rows, logs)
           | Some image_name \<Rightarrow>
               ebind (get_image_metadata image_name annotation_json) (\<lambda>image_metadata.
               ebind (if include_comments then
                        ebind (ebind (py_getitem annotation_json ''comments'') py_iter) (\<lambda>comments.
                        process_comments P columns image_metadata comments rows)
                      else Inr rows) (\<lambda>rows1.
               ebind (if include_tags then
                        ebind (ebind (py_getitem annotation_json ''tags'') py_iter) (\<lambda>tags.
                        Inr (process_tags columns image_metadata tags rows1))
                      else Inr rows1) (\<lambda>rows2.
               ebind (ebind (py_getitem annotation_json ''instances'') py_iter) (\<lambda>instances.
               ebind (process_instances P colors groups columns image_name image_metadata dirs
                        instances (0, rows2, logs)) (\<lambda>final.
               Inr (fst (snd final), snd (snd final)))))))))"

fun process_paths :: "pandas \<Rightarrow> color_table \<Rightarrow> group_table \<Rightarrow> string list \<Rightarrow> bool \<Rightarrow> bool
    \<Rightarrow> string \<Rightarrow> path list \<Rightarrow> row list \<times> log_record list \<Rightarrow> py_error + (row list \<times> log_record list)" where
  "process_paths P colors groups columns include_comments include_tags type_postfix [] st = Inr st"
| "process_paths P colors groups columns include_comments include_tags type_postfix
       (annotation_path # rest) st =
     (case process_path P colors groups columns include_comments include_tags type_postfix
             annotation_path st of
        Inl e \<Rightarrow> Inl e
      | Inr st' \<Rightarrow>
          process_paths P colors groups columns include_comments include_tags type_postfix rest st')"

text \<open>
  Lines 457--499: rows for the classes and attributes that no annotation uses.  The
  comparisons are made against the table as it was before this step.  \<open>unique()\<close> needs
  hashable cells.
\<close>

definition unique_cells :: "json list \<Rightarrow> py_error + json list" where
  "unique_cells cells = (if list_all hashable cells then Inr cells else Inl TypeError)"

fun missing_attributes :: "string list \<Rightarrow> json \<Rightarrow> json \<Rightarrow> json \<Rightarrow> row list \<Rightarrow> json list \<Rightarrow> row list
    \<Rightarrow> py_error + row list" where
  "missing_attributes columns class_name class_color group_name group_df [] acc = Inr acc"
| "missing_attributes columns class_name class_color group_name group_df (attribute # rest) acc =
     (case py_getitem attribute ''name'' of
        Inl e \<Rightarrow> Inl e
      | Inr attribute_name \<Rightarrow>
          (case unique_cells (map (\<lambda>r. cell r ''attributeName'') group_df) of
             Inl e \<Rightarrow> Inl e
           | Inr names \<Rightarrow>
               missing_attributes columns class_name class_color group_name group_df rest
                 (if \<not> list_contains names attribute_name then
                    acc @ [append_annotation columns
                             [(''className'', class_name), (''classColor'', class_color),
                              (''attributeGroupName'', group_name),
                              (''attributeName'', attribute_name)]]
                  else acc)))"

fun missing_groups :: "string list \<Rightarrow> json \<Rightarrow> json \<Rightarrow> row list \<Rightarrow> json list \<Rightarrow> row list
    \<Rightarrow> py_error + row list" where
  "missing_groups columns class_name class_color class_df [] acc = Inr acc"
| "missing_groups columns class_name class_color class_df (attribute_group # rest) acc =
     (case py_getitem attribute_group ''name'' of
        Inl e \<Rightarrow> Inl e
      | Inr group_name \<Rightarrow>
          (case ebind (py_getitem attribute_group ''attributes'') py_iter of
             Inl e \<Rightarrow> Inl e
           | Inr attrs \<Rightarrow>
               (case missing_attributes columns class_name class_color group_name
                       (filter (\<lambda>r. pandas_eq (cell r ''attributeGroupName'') group_name) class_df)
                       attrs acc of
                  Inl e \<Rightarrow> Inl e
                | Inr acc' \<Rightarrow> missing_groups columns class_name class_color class_df rest acc')))"

fun classes_wo_annotations :: "string list \<Rightarrow> row list \<Rightarrow> json list \<Rightarrow> row list \<Rightarrow> py_error + row list" where
  "classes_wo_annotations columns df [] acc = Inr acc"
| "classes_wo_annotations columns df (class_meta # rest) acc =
     (case py_getitem class_meta ''name'' of
        Inl e \<Rightarrow> Inl e
      | Inr class_name \<Rightarrow>
     (case py_getitem class_meta ''color'' of
        Inl e \<Rightarrow> Inl e
      | Inr class_color \<Rightarrow>
     (case unique_cells (map (\<lambda>r. cell r ''className'') df) of
        Inl e \<Rightarrow> Inl e
      | Inr names \<Rightarrow>
          if \<not> list_contains names class_name then
            classes_wo_annotations columns df rest
              (acc @ [append_annotation columns
                        [(''className'', class_name), (''classColor'', class_color)]])
          else
            (case ebind (py_getitem class_meta ''attribute_groups'') py_iter of
               Inl e \<Rightarrow> Inl e
             | Inr attribute_groups \<Rightarrow>
                 (case missing_groups columns class_name class_color
                         (filter (\<lambda>r. pandas_eq (cell r ''className'') class_name) df)
                         attribute_groups acc of
                    Inl e \<Rightarrow> Inl e
                  | Inr acc' \<Rightarrow> classes_wo_annotations columns df rest acc')))))"

text \<open>Line 501: \<open>df.astype({"probability": float})\<close>, cell by cell.\<close>

fun astype_probability :: "pandas \<Rightarrow> row list \<Rightarrow> py_error + row list" where
  "astype_probability P [] = Inr []"
| "astype_probability P (r # rs) =
     (case pd_float P (cell r ''probability'') of
        Inl e \<Rightarrow> Inl e
      | Inr v \<Rightarrow>
          (case astype_probability P rs of
             Inl e \<Rightarrow> Inl e
           | Inr rs' \<Rightarrow>
               Inr (map (\<lambda>kv. if fst kv = ''probability'' then (fst kv, v) else kv) r # rs')))"

text \<open>
  \<open>aggregate_image_annotations_as_df\<close>.  It returns the rows of the table and the log
  records, or the exception raised.
\<close>

definition aggregate_image_annotations_as_df :: "pandas \<Rightarrow> fsnode \<Rightarrow> bool \<Rightarrow> bool \<Rightarrow> bool
    \<Rightarrow> string list list option \<Rightarrow> py_error + (row list \<times> log_record list)" where
  "aggregate_image_annotations_as_df P project_root include_classes_wo_annotations
       include_comments include_tags folder_names =
     (let json_paths = filter (\<lambda>e. suffix ''.json'' (fst e)) (entries project_root) in
      if json_paths \<noteq> [] \<and> \<not> sublist ''___pixel.json'' (fst (hd json_paths))
           \<and> \<not> sublist ''___objects.json'' (fst (hd json_paths))
      then Inl (AppException DepricatedDocumentVideo)
      else
        (case lookup_path project_root [''classes'', ''classes.json''] of
           Some (File classes_json) \<Rightarrow>
             ebind (py_iter classes_json) (\<lambda>classes.
             ebind (load_classes classes ([], [])) (\<lambda>tables.
             (let columns = table_columns include_comments include_tags;
                  annotations_paths = collect_paths project_root folder_names;
                  logs0 = [Info ''Aggregating annotations from %s as pandas DataFrame'']
                          @ (if annotations_paths = []
                             then [Warning ''Could not find annotations in %s.'' JNull] else []);
                  type_postfix = (if rglob ''___objects.json'' [] project_root \<noteq> []
                                  then ''___objects.json'' else ''___pixel.json'')
              in ebind (process_paths P (fst tables) (snd tables) columns include_comments
                          include_tags type_postfix annotations_paths ([], logs0)) (\<lambda>res.
                 ebind (if include_classes_wo_annotations
                        then classes_wo_annotations columns (fst res) classes (fst res)
                        else Inr (fst res)) (\<lambda>rows.
                 ebind (astype_probability P rows) (\<lambda>df. Inr (df, snd res)))))))
         | _ \<Rightarrow> Inl (AppException ClassesFileNotFound)))"

section \<open>Notions used to state the properties of the aggregation\<close>

text \<open>The value \<open>obj.get(key)\<close> gives on a dict.\<close>

definition field :: "json \<Rightarrow> string \<Rightarrow> json" where
  "field obj k = (case obj of JObj kvs \<Rightarrow> (case map_of kvs k of Some v \<Rightarrow> v | None \<Rightarrow> JNull) | _ \<Rightarrow> JNull)"

fun is_obj :: "json \<Rightarrow> bool" where
  "is_obj (JObj kvs) = True"
| "is_obj _ = False"

fun has_key :: "json \<Rightarrow> string \<Rightarrow> bool" where
  "has_key (JObj kvs) k = (map_of kvs k \<noteq> None)"
| "has_key _ k = False"

text \<open>The type the code gives an instance: its \<open>type\<close> entry, or \<open>mask\<close> without one.\<close>

definition type_of :: "json \<Rightarrow> json" where
  "type_of annotation = (if has_key annotation ''type'' then field annotation ''type'' else JStr ''mask'')"

text \<open>
  An attribute validates against the groups of its class when its group is one of them
  and its name is one of the names of that group (lines 408--427).
\<close>

definition attr_valid :: "(json \<times> json list) list \<Rightarrow> json \<Rightarrow> bool" where
  "attr_valid groups attribute =
     (case jdict_find groups (field attribute ''groupName'') of
        None \<Rightarrow> False
      | Some values \<Rightarrow> list_contains values (field attribute ''name''))"

text \<open>An attribute entry is well formed when it is an object whose group name is hashable.\<close>

definition attr_wf :: "json \<Rightarrow> bool" where
  "attr_wf attribute \<longleftrightarrow> is_obj attribute \<and> hashable (field attribute ''groupName'')"

text \<open>The row the code appends for an instance, for given attribute fields.\<close>

definition instance_row :: "string list \<Rightarrow> string \<Rightarrow> nat \<Rightarrow> string list \<Rightarrow> json \<Rightarrow> json \<Rightarrow> json
    \<Rightarrow> (string \<times> json) list \<Rightarrow> (string \<times> json) list \<Rightarrow> (string \<times> json) list \<Rightarrow> row" where
  "instance_row columns image_name annotation_instance_id dirs annotation class_color meta_value
       user_metadata image_metadata attribute_fields =
     append_annotation columns
       (instance_dict image_name annotation_instance_id (field annotation ''className'')
          attribute_fields (type_of annotation) (field annotation ''locked'')
          (field annotation ''visible'') (field annotation ''trackingId'') meta_value
          (field annotation ''error'') (field annotation ''probability'')
          (field annotation ''pointLabels'') class_color (field annotation ''groupId'')
          (folder_name_of dirs) user_metadata image_metadata)"

definition attribute_fields_of :: "json \<Rightarrow> (string \<times> json) list" where
  "attribute_fields_of attribute =
     [(''attributeGroupName'', field attribute ''groupName''),
      (''attributeName'', field attribute ''name'')]"

definition user_metadata_keys :: "string list" where
  "user_metadata_keys = [''createdAt'', ''creatorRole'', ''creatorEmail'', ''creationType'',
                         ''updatedAt'', ''updatorRole'', ''updatorEmail'']"

definition image_metadata_keys :: "string list" where
  "image_metadata_keys = [''imageName'', ''imageHeight'', ''imageWidth'', ''imageStatus'',
                          ''imagePinned'', ''imageAnnotator'', ''imageQA'']"



text \<open>Example data for evaluating the aggregation.\<close>

definition ex_pandas :: pandas where
  "ex_pandas = \<lparr> pd_to_datetime = Inr, pd_float = Inr \<rparr>"

definition ex_classes :: json where
  "ex_classes =
     JArr [JObj [(''name'', JStr ''car''), (''color'', JStr ''#ff0000''),
                 (''attribute_groups'',
                  JArr [JObj [(''name'', JStr ''size''),
                              (''attributes'', JArr [JObj [(''name'', JStr ''big'')],
                                                     JObj [(''name'', JStr ''small'')]])]])]]"

definition ex_colors :: color_table where
  "ex_colors = [(JStr ''car'', JStr ''#ff0000'')]"

definition ex_groups :: group_table where
  "ex_groups = [(JStr ''car'', [(JStr ''size'', [JStr ''big'', JStr ''small''])])]"

definition ex_car :: json where
  "ex_car = JObj [(''type'', JStr ''bbox''), (''className'', JStr ''car''),
                  (''points'', JObj [(''x1'', JNum 0), (''x2'', JNum 2), (''y1'', JNum 0), (''y2'', JNum 2)])]"

definition ex_pedestrian :: json where
  "ex_pedestrian = JObj [(''type'', JStr ''bbox''), (''className'', JStr ''pedestrian''),
                         (''points'', JObj [(''x1'', JNum 0), (''x2'', JNum 2), (''y1'', JNum 0), (''y2'', JNum 2)])]"

definition ex_file :: json where
  "ex_file = JObj [(''metadata'', JObj [(''width'', JNum 10), (''height'', JNum 10)]),
                   (''instances'', JArr [ex_car, ex_pedestrian])]"

definition ex_root_nested :: fsnode where
  "ex_root_nested =
     Dir [(''classes'', Dir [(''classes.json'', File ex_classes)]),
          (''A'', Dir [(''sub'', Dir [(''img___objects.json'', File ex_file)])])]"

definition ex_root_flat :: fsnode where
  "ex_root_flat =
     Dir [(''classes'', Dir [(''classes.json'', File ex_classes)]),
          (''img___objects.json'', File ex_file)]"

definition ex_user_metadata :: "(string \<times> json) list" where
  "ex_user_metadata =
     [(''createdAt'', JNull), (''creatorRole'', JNull), (''creatorEmail'', JNull),
      (''creationType'', JNull), (''updatedAt'', JNull), (''updatorRole'', JNull),
      (''updatorEmail'', JNull)]"

definition ex_image_metadata :: "(string \<times> json) list" where
  "ex_image_metadata =
     [(''imageName'', JStr ''img''), (''imageHeight'', JNum 10), (''imageWidth'', JNum 10),
      (''imageStatus'', JNull), (''imagePinned'', JNull), (''imageAnnotator'', JNull),
      (''imageQA'', JNull)]"

definition ex_points :: json where
  "ex_points = JObj [(''points'', JObj [(''x1'', JNum 0), (''x2'', JNum 2), (''y1'', JNum 0), (''y2'', JNum 2)])]"

definition ex_car_row :: "string list \<Rightarrow> row" where
  "ex_car_row dirs =
     instance_row (table_columns False False) ''img'' 0 dirs ex_car (JStr ''#ff0000'') ex_points
       ex_user_metadata ex_image_metadata []"

definition ex_skip_warning :: log_record where
  "ex_skip_warning =
     Warning ''Annotation class %s not found in classes json. Skipping.'' (JStr ''pedestrian'')"

definition ex_info :: log_record where
  "ex_info = Info ''Aggregating annotations from %s as pandas DataFrame''"

definition ex_attr :: "string \<Rightarrow> string \<Rightarrow> json" where
  "ex_attr g n = JObj [(''groupName'', JStr g), (''name'', JStr n)]"

definition ex_car_attrs :: json where
  "ex_car_attrs =
     JObj [(''type'', JStr ''bbox''), (''className'', JStr ''car''),
           (''points'', JObj [(''x1'', JNum 0), (''x2'', JNum 2), (''y1'', JNum 0), (''y2'', JNum 2)]),
           (''attributes'', JArr [ex_attr ''size'' ''big'', ex_attr ''size'' ''huge'',
                                  ex_attr ''colour'' ''red''])]"

definition ex_mask :: json where
  "ex_mask = JObj [(''className'', JStr ''car''), (''parts'', JArr [JObj [(''color'', JStr ''#000001'')]])]"

definition ex_untyped :: json where
  "ex_untyped = JObj [(''className'', JStr ''car'')]"

text \<open>\<open>classes_path.is_file()\<close> for \<open>classes/classes.json\<close> under the root.\<close>

definition classes_file_present :: "fsnode \<Rightarrow> bool" where
  "classes_file_present project_root =
     (case lookup_path project_root [''classes'', ''classes.json''] of
        Some (File j) \<Rightarrow> True
      | _ \<Rightarrow> False)"

lemma proj_cons_loop_sum:
  "proj_cons_loop S c os (acc, calls) = Inr (acc', calls') \<Longrightarrow>
     acc' = acc + sum_list (map (clamped_score S c) (other_members c os)) \<and>
     (\<forall>m\<in>set (other_members c os). \<exists>s. instance_consensus S (fst (snd c)) (fst (snd m)) = Inr s)"
proof (induction os arbitrary: acc calls)
  case Nil
  then show ?case by (simp add: other_members_def)
next
  case (Cons m os)
  show ?case
  proof (cases "fst c \<noteq> fst m")
    case True
    then obtain s where s: "instance_consensus S (fst (snd c)) (fst (snd m)) = Inr s"
      using Cons.prems by (auto split: sum.splits)
    with True Cons.prems have
      "proj_cons_loop S c os (acc + (if s \<le> 0 then 1 else s), calls @ [(snd c, snd m)]) = Inr (acc', calls')"
      by simp
    from Cons.IH[OF this] s True show ?thesis
      by (auto simp: other_members_def clamped_score_def)
  next
    case False
    with Cons.prems have "proj_cons_loop S c os (acc, calls) = Inr (acc', calls')" by simp
    from Cons.IH[OF this] False show ?thesis by (auto simp: other_members_def)
  qed
qed

lemma score_rows_map:
  "score_rows S img i n g todo (rows, calls) = Inr (rows', calls') \<Longrightarrow>
     rows' = rows @ map (\<lambda>c. mk_row S img i c
                (sum_list (map (clamped_score S c) (other_members c g)) / (real n - 1))) todo
     \<and> (\<forall>c\<in>set todo. \<forall>m\<in>set (other_members c g). \<exists>s. instance_consensus S (fst (snd c)) (fst (snd m)) = Inr s)"
proof (induction todo arbitrary: rows calls)
  case Nil
  then show ?case by simp
next
  case (Cons c todo)
  from Cons.prems obtain pc calls1 where
    pc: "proj_cons_loop S c g (0, calls) = Inr (pc, calls1)"
    by (auto split: sum.splits)
  with Cons.prems have n: "int n - 1 \<noteq> 0"
    by (auto split: if_splits)
  with pc Cons.prems have rest: "score_rows S img i n g todo
      (rows @ [mk_row S img i c (pc / (real n - 1))], calls1) = Inr (rows', calls')"
    by simp
  from proj_cons_loop_sum[OF pc] Cons.IH[OF rest] show ?case by simp
qed

lemma group_score:
  assumes "group_rows S img i n g calls = Inr (rows, calls')" and "length g \<noteq> 1"
  shows "length rows = length g \<and>
         (\<forall>k<length g. r_score (rows ! k) =
            sum_list (map (clamped_score S (g ! k)) (other_members (g ! k) g)) / (real n - 1) \<and>
            (\<forall>m\<in>set (other_members (g ! k) g).
               \<exists>s. instance_consensus S (fst (snd (g ! k))) (fst (snd m)) = Inr s))"
proof -
  from assms have "score_rows S img i n g g ([], calls) = Inr (rows, calls')"
    by (simp add: group_rows_def)
  from score_rows_map[OF this] show ?thesis
    by (auto simp: mk_row_def split: prod.splits)
qed

lemma best_match_inv:
  "best_match S visited other_proj c xs ((ms, md, mi), calls) = Inr ((ms', md', mi'), calls') \<Longrightarrow>
   md' = Some d \<Longrightarrow>
   md = Some d \<or> (fst (snd d) = fst (snd c) \<and> d \<in> snd ` set xs)"
proof (induction xs arbitrary: ms md mi calls)
  case Nil
  then show ?case by simp
next
  case (Cons x xs)
  obtain oid other where x: "x = (oid, other)" by (cases x)
  from Cons.prems(1) obtain v where v: "visited_get visited other_proj oid = Inr v"
    unfolding x by (auto split: sum.splits)
  show ?case
  proof (cases v)
    case True
    with v Cons.prems(1) have "best_match S visited other_proj c xs ((ms, md, mi), calls)
        = Inr ((ms', md', mi'), calls')" unfolding x by simp
    from Cons.IH[OF this Cons.prems(2)] show ?thesis by auto
  next
    case False
    with v Cons.prems(1) obtain s where s: "instance_consensus S (fst c) (fst other) = Inr s"
      unfolding x by (auto split: sum.splits)
    show ?thesis
    proof (cases "score_gt s ms \<and> fst (snd other) = fst (snd c)")
      case True
      with v False s Cons.prems(1) have "best_match S visited other_proj c xs
          ((Some s, Some other, int oid), calls @ [(c, other)]) = Inr ((ms', md', mi'), calls')"
        unfolding x by simp
      from Cons.IH[OF this Cons.prems(2)] True show ?thesis unfolding x by auto
    next
      case nt: False
      with v False s Cons.prems(1) have "best_match S visited other_proj c xs
          ((ms, md, mi), calls @ [(c, other)]) = Inr ((ms', md', mi'), calls')"
        unfolding x by auto
      from Cons.IH[OF this Cons.prems(2)] show ?thesis by auto
    qed
  qed
qed

lemma snd_set_enumerate: "snd ` set (enumerate n xs) = set xs"
  by (induction xs arbitrary: n) auto

lemma match_projects_inv:
  "match_projects S ty curr_proj curr_id c ps (g, visited, calls) = Inr (g', visited', calls') \<Longrightarrow>
   set ps \<subseteq> set objs \<Longrightarrow> member_of objs (curr_proj, c) \<Longrightarrow>
   m \<in> set g' \<Longrightarrow>
   m \<in> set g \<or> (fst (snd (snd m)) = fst (snd c) \<and> member_of objs m)"
proof (induction ps arbitrary: g visited calls)
  case Nil
  then show ?case by simp
next
  case (Cons p ps)
  obtain other_proj insts where p: "p = (other_proj, insts)" by (cases p)
  have sub: "set ps \<subseteq> set objs" and pin: "(other_proj, insts) \<in> set objs"
    using Cons.prems(2) p by auto
  show ?case
  proof (cases "curr_proj = other_proj")
    case True
    with Cons.prems(1) obtain v1 where
      "match_projects S ty curr_proj curr_id c ps (g @ [(curr_proj, c)], v1, calls) = Inr (g', visited', calls')"
      unfolding p by (auto split: sum.splits)
    from Cons.IH[OF this sub Cons.prems(3) Cons.prems(4)] Cons.prems(3) show ?thesis by auto
  next
    case False
    with Cons.prems(1) obtain ms md mi calls1 where
      bm: "best_match S visited other_proj c (enumerate 0 insts)
             ((if ty \<in> {''polygon'', ''bbox''} then Some 0 else None, None, - 1), calls)
           = Inr ((ms, md, mi), calls1)"
      unfolding p by (auto split: sum.splits simp del: best_match.simps)
    show ?thesis
    proof (cases md)
      case None
      with False bm Cons.prems(1) have
        "match_projects S ty curr_proj curr_id c ps (g, visited, calls1) = Inr (g', visited', calls')"
        unfolding p by (simp del: best_match.simps)
      from Cons.IH[OF this sub Cons.prems(3) Cons.prems(4)] show ?thesis .
    next
      case (Some d)
      with False bm Cons.prems(1) obtain v1 where
        "match_projects S ty curr_proj curr_id c ps (g @ [(other_proj, d)], v1, calls1) = Inr (g', visited', calls')"
        unfolding p by (auto split: sum.splits if_splits simp del: best_match.simps)
      from Cons.IH[OF this sub Cons.prems(3) Cons.prems(4)]
      have "m \<in> set g \<or> m = (other_proj, d) \<or> (fst (snd (snd m)) = fst (snd c) \<and> member_of objs m)"
        by auto
      moreover from best_match_inv[OF bm Some] have "fst (snd d) = fst (snd c) \<and> d \<in> set insts"
        by (simp add: snd_set_enumerate)
      ultimately show ?thesis using pin by (auto simp: member_of_def)
    qed
  qed
qed

lemma rows_ok_Nil: "rows_ok P lo hi []"
  unfolding rows_ok_def by simp

lemma rows_okD:
  assumes "rows_ok P lo hi rows" and "r \<in> set rows"
  shows "lo \<le> r_instanceId r" and "r_instanceId r < hi"
    and "length (filter (\<lambda>r'. r_instanceId r' = r_instanceId r) rows) = 1 \<longrightarrow> r_score r = 0"
    and "\<forall>r'\<in>set rows. r_instanceId r' = r_instanceId r \<longrightarrow> r_className r' = r_className r"
    and "\<exists>m. P m \<and> row_of_member r m"
  using assms unfolding rows_ok_def by blast+

lemma rows_okI:
  assumes "\<And>r. r \<in> set rows \<Longrightarrow> lo \<le> r_instanceId r"
    and "\<And>r. r \<in> set rows \<Longrightarrow> r_instanceId r < hi"
    and "\<And>r. r \<in> set rows \<Longrightarrow> length (filter (\<lambda>r'. r_instanceId r' = r_instanceId r) rows) = 1 \<Longrightarrow> r_score r = 0"
    and "\<And>r r'. r \<in> set rows \<Longrightarrow> r' \<in> set rows \<Longrightarrow> r_instanceId r' = r_instanceId r \<Longrightarrow> r_className r' = r_className r"
    and "\<And>r. r \<in> set rows \<Longrightarrow> \<exists>m. P m \<and> row_of_member r m"
  shows "rows_ok P lo hi rows"
  unfolding rows_ok_def using assms by blast


lemma rows_ok_append:
  assumes X: "rows_ok P a b xs" and Y: "rows_ok P b c ys" and ab: "a \<le> b" and bc: "b \<le> c"
  shows "rows_ok P a c (xs @ ys)"
proof -
  have disj: "r_instanceId r' \<noteq> r_instanceId r" if "r \<in> set xs" "r' \<in> set ys" for r r'
  proof -
    have "r_instanceId r < b" using rows_okD(2)[OF X that(1)] .
    moreover have "b \<le> r_instanceId r'" using rows_okD(1)[OF Y that(2)] .
    ultimately show ?thesis by linarith
  qed
  have fx: "filter (\<lambda>r'. r_instanceId r' = r_instanceId r) (xs @ ys)
              = filter (\<lambda>r'. r_instanceId r' = r_instanceId r) xs" if "r \<in> set xs" for r
  proof -
    have "filter (\<lambda>r'. r_instanceId r' = r_instanceId r) ys = []"
      unfolding filter_empty_conv using disj[OF that] by blast
    then show ?thesis by simp
  qed
  have fy: "filter (\<lambda>r'. r_instanceId r' = r_instanceId r) (xs @ ys)
              = filter (\<lambda>r'. r_instanceId r' = r_instanceId r) ys" if "r \<in> set ys" for r
  proof -
    have "filter (\<lambda>r'. r_instanceId r' = r_instanceId r) xs = []"
      unfolding filter_empty_conv using disj[OF _ that] by metis
    then show ?thesis by simp
  qed
  show ?thesis
  proof (rule rows_okI)
    fix r assume "r \<in> set (xs @ ys)"
    then consider "r \<in> set xs" | "r \<in> set ys" by auto
    then show "a \<le> r_instanceId r"
    proof cases
      case 1 then show ?thesis using rows_okD(1)[OF X] by blast
    next
      case 2 then have "b \<le> r_instanceId r" using rows_okD(1)[OF Y] by blast
      with ab show ?thesis by linarith
    qed
  next
    fix r assume "r \<in> set (xs @ ys)"
    then consider "r \<in> set xs" | "r \<in> set ys" by auto
    then show "r_instanceId r < c"
    proof cases
      case 1 then have "r_instanceId r < b" using rows_okD(2)[OF X] by blast
      with bc show ?thesis by linarith
    next
      case 2 then show ?thesis using rows_okD(2)[OF Y] by blast
    qed
  next
    fix r assume r: "r \<in> set (xs @ ys)"
      and one: "length (filter (\<lambda>r'. r_instanceId r' = r_instanceId r) (xs @ ys)) = 1"
    from r consider "r \<in> set xs" | "r \<in> set ys" by auto
    then show "r_score r = 0"
    proof cases
      case 1
      with one fx[OF 1] rows_okD(3)[OF X 1] show ?thesis by simp
    next
      case 2
      with one fy[OF 2] rows_okD(3)[OF Y 2] show ?thesis by simp
    qed
  next
    fix r r' assume r: "r \<in> set (xs @ ys)" and r': "r' \<in> set (xs @ ys)"
      and same: "r_instanceId r' = r_instanceId r"
    from r consider "r \<in> set xs" | "r \<in> set ys" by auto
    then show "r_className r' = r_className r"
    proof cases
      case 1
      with r' same disj have "r' \<in> set xs" by auto
      with rows_okD(4)[OF X 1] same show ?thesis by blast
    next
      case 2
      with r' same disj have "r' \<in> set ys" by (metis Un_iff set_append)
      with rows_okD(4)[OF Y 2] same show ?thesis by blast
    qed
  next
    fix r assume "r \<in> set (xs @ ys)"
    then consider "r \<in> set xs" | "r \<in> set ys" by auto
    then show "\<exists>m. P m \<and> row_of_member r m"
    proof cases
      case 1 then show ?thesis using rows_okD(5)[OF X] by blast
    next
      case 2 then show ?thesis using rows_okD(5)[OF Y] by blast
    qed
  qed
qed

lemma row_of_member_mk_row: "row_of_member (mk_row S img i m s) m"
  by (cases m) (simp add: mk_row_def row_of_member_def)

lemma mk_row_id: "r_instanceId (mk_row S img i m s) = i"
  by (cases m) (simp add: mk_row_def)

lemma mk_row_score: "r_score (mk_row S img i m s) = s"
  by (cases m) (simp add: mk_row_def)

lemma mk_row_class: "r_className (mk_row S img i m s) = fst (snd (snd m))"
  by (cases m) (simp add: mk_row_def)

lemma group_rows_shape:
  assumes "group_rows S img i n g calls = Inr (rows, calls')"
  shows "\<exists>ss. length ss = length g \<and> rows = map (\<lambda>(m, s). mk_row S img i m s) (zip g ss) \<and>
              (length g = 1 \<longrightarrow> ss = [0])"
proof (cases "length g = 1")
  case True
  then obtain m where g: "g = [m]" by (cases g) auto
  with assms have "rows = [mk_row S img i m 0]" by (simp add: group_rows_def)
  with g show ?thesis by (intro exI[of _ "[0]"]) simp
next
  case False
  let ?sc = "\<lambda>c. sum_list (map (clamped_score S c) (other_members c g)) / (real n - 1)"
  from False assms have "score_rows S img i n g g ([], calls) = Inr (rows, calls')"
    by (simp add: group_rows_def)
  from score_rows_map[OF this]
  have "rows = map (\<lambda>c. mk_row S img i c (?sc c)) g" by simp
  also have "\<dots> = map (\<lambda>(m, s). mk_row S img i m s) (zip g (map ?sc g))"
    by (simp add: zip_map2 zip_same_conv_map)
  finally have "rows = map (\<lambda>(m, s). mk_row S img i m s) (zip g (map ?sc g))" .
  with False show ?thesis by (intro exI[of _ "map ?sc g"]) simp
qed

lemma group_rows_ok:
  assumes gr: "group_rows S img i n g calls = Inr (rows, calls')"
    and g: "\<forall>m\<in>set g. fst (snd (snd m)) = cls \<and> P m"
  shows "rows_ok P i (Suc i) rows"
proof -
  from group_rows_shape[OF gr] obtain ss where
    len: "length ss = length g" and
    rows: "rows = map (\<lambda>(m, s). mk_row S img i m s) (zip g ss)" and
    one: "length g = 1 \<longrightarrow> ss = [0]" by blast
  have shape: "\<exists>m s. m \<in> set g \<and> r = mk_row S img i m s" if "r \<in> set rows" for r
  proof -
    from that obtain m s where ms: "(m, s) \<in> set (zip g ss)" and r: "r = mk_row S img i m s"
      unfolding rows by auto
    from ms have "m \<in> set g" by (rule set_zip_leftD)
    with r show ?thesis by blast
  qed
  have ids: "r_instanceId r = i" if "r \<in> set rows" for r
    using shape[OF that] by (auto simp: mk_row_id)
  have cls: "r_className r = cls" if "r \<in> set rows" for r
    using shape[OF that] g by (auto simp: mk_row_class)
  have lr: "length rows = length g" unfolding rows using len by simp
  show ?thesis
  proof (rule rows_okI)
    fix r assume "r \<in> set rows"
    then show "i \<le> r_instanceId r" using ids by simp
  next
    fix r assume "r \<in> set rows"
    then show "r_instanceId r < Suc i" using ids by simp
  next
    fix r assume r: "r \<in> set rows"
      and l: "length (filter (\<lambda>r'. r_instanceId r' = r_instanceId r) rows) = 1"
    have "filter (\<lambda>r'. r_instanceId r' = r_instanceId r) rows = rows"
      unfolding filter_id_conv using ids r by simp
    with l lr have "length g = 1" by simp
    with one have ss: "ss = [0]" by simp
    with len obtain m where "g = [m]" by (cases g) auto
    with ss r show "r_score r = 0" unfolding rows by (simp add: mk_row_score)
  next
    fix r r' assume "r \<in> set rows" "r' \<in> set rows"
    then show "r_className r' = r_className r" using cls by simp
  next
    fix r assume "r \<in> set rows"
    from shape[OF this] obtain m s where "m \<in> set g" "r = mk_row S img i m s" by blast
    with g show "\<exists>m. P m \<and> row_of_member r m"
      by (intro exI[of _ m]) (simp add: row_of_member_mk_row)
  qed
qed

lemma match_instances_inv:
  "match_instances S ty img n objs curr_proj xs (visited, i, data, calls) = Inr (visited', i', data', calls') \<Longrightarrow>
   \<forall>x\<in>set xs. member_of objs (curr_proj, snd x) \<Longrightarrow>
   \<exists>new. data' = data @ new \<and> i \<le> i' \<and> rows_ok (member_of objs) i i' new"
proof (induction xs arbitrary: visited i data calls)
  case Nil
  then show ?case by (simp add: rows_ok_Nil)
next
  case (Cons x xs)
  obtain curr_id c where x: "x = (curr_id, c)" by (cases x)
  have memc: "member_of objs (curr_proj, c)" and memxs: "\<forall>x\<in>set xs. member_of objs (curr_proj, snd x)"
    using Cons.prems(2) x by auto
  from Cons.prems(1) obtain v where v: "visited_get visited curr_proj curr_id = Inr v"
    unfolding x by (auto split: sum.splits)
  show ?case
  proof (cases v)
    case True
    with v Cons.prems(1) have "match_instances S ty img n objs curr_proj xs (visited, i, data, calls)
       = Inr (visited', i', data', calls')" unfolding x by simp
    from Cons.IH[OF this memxs] show ?thesis .
  next
    case False
    with v Cons.prems(1) obtain g v1 calls1 where
      mp: "match_projects S ty curr_proj curr_id c objs ([], visited, calls) = Inr (g, v1, calls1)"
      unfolding x by (auto split: sum.splits)
    with v False Cons.prems(1) obtain rows calls2 where
      gr: "group_rows S img i n g calls1 = Inr (rows, calls2)"
      unfolding x by (auto split: sum.splits)
    with v False mp Cons.prems(1) have rest:
      "match_instances S ty img n objs curr_proj xs (v1, i + 1, data @ rows, calls2)
         = Inr (visited', i', data', calls')" unfolding x by simp
    from Cons.IH[OF rest memxs] obtain new where
      new: "data' = (data @ rows) @ new" "i + 1 \<le> i'" "rows_ok (member_of objs) (i + 1) i' new"
      by blast
    have "\<forall>m\<in>set g. fst (snd (snd m)) = fst (snd c) \<and> member_of objs m"
      using match_projects_inv[OF mp subset_refl memc] by auto
    from group_rows_ok[OF gr this] have "rows_ok (member_of objs) i (Suc i) rows" .
    from rows_ok_append[OF this] new have "rows_ok (member_of objs) i i' (rows @ new)" by simp
    with new show ?thesis by (intro exI[of _ "rows @ new"]) simp
  qed
qed

lemma match_all_inv:
  "match_all S ty img n objs ps (visited, i, data, calls) = Inr (visited', i', data', calls') \<Longrightarrow>
   set ps \<subseteq> set objs \<Longrightarrow>
   \<exists>new. data' = data @ new \<and> i \<le> i' \<and> rows_ok (member_of objs) i i' new"
proof (induction ps arbitrary: visited i data calls)
  case Nil
  then show ?case by (simp add: rows_ok_Nil)
next
  case (Cons p ps)
  obtain curr_proj insts where p: "p = (curr_proj, insts)" by (cases p)
  from Cons.prems(1) obtain v1 i1 d1 c1 where
    mi: "match_instances S ty img n objs curr_proj (enumerate 0 insts) (visited, i, data, calls)
          = Inr (v1, i1, d1, c1)"
    unfolding p by (auto split: sum.splits)
  with Cons.prems(1) have rest: "match_all S ty img n objs ps (v1, i1, d1, c1) = Inr (visited', i', data', calls')"
    unfolding p by simp
  have "\<forall>x\<in>set (enumerate 0 insts). member_of objs (curr_proj, snd x)"
  proof
    fix x assume "x \<in> set (enumerate 0 insts)"
    then have "snd x \<in> snd ` set (enumerate 0 insts)" by (rule imageI)
    then have "snd x \<in> set insts" by (simp only: snd_set_enumerate)
    moreover have "(curr_proj, insts) \<in> set objs" using Cons.prems(2) p by auto
    ultimately show "member_of objs (curr_proj, snd x)" by (auto simp: member_of_def)
  qed
  from match_instances_inv[OF mi this] obtain new1 where
    n1: "d1 = data @ new1" "i \<le> i1" "rows_ok (member_of objs) i i1 new1" by blast
  from Cons.IH[OF rest] Cons.prems(2) obtain new2 where
    n2: "data' = d1 @ new2" "i1 \<le> i'" "rows_ok (member_of objs) i1 i' new2" by auto
  from rows_ok_append[OF n1(3) n2(3) n1(2) n2(2)] n1 n2
  show ?case by (intro exI[of _ "new1 @ new2"]) simp
qed

lemma set_dict_setdefault:
  "(p, insts) \<in> set (dict_setdefault objs k) \<Longrightarrow> (p, insts) \<in> set objs \<or> insts = []"
  by (induction objs) (auto split: if_splits)

lemma set_dict_append:
  "(p, insts) \<in> set (dict_append objs k x) \<Longrightarrow>
     (p, insts) \<in> set objs \<or> (p = k \<and> (\<exists>v. (k, v) \<in> set objs \<and> insts = v @ [x]))"
  by (induction objs) (auto split: if_splits)

lemma member_of_setdefault: "member_of (dict_setdefault objs k) m \<Longrightarrow> member_of objs m"
  unfolding member_of_def using set_dict_setdefault by fastforce

lemma member_of_append:
  assumes "member_of (dict_append objs k x) m"
  shows "member_of objs m \<or> m = (k, x)"
proof -
  from assms obtain insts where i: "(fst m, insts) \<in> set (dict_append objs k x)" "snd m \<in> set insts"
    unfolding member_of_def by blast
  from set_dict_append[OF i(1)] show ?thesis
  proof
    assume "(fst m, insts) \<in> set objs"
    with i(2) show ?thesis unfolding member_of_def by blast
  next
    assume "fst m = k \<and> (\<exists>v. (k, v) \<in> set objs \<and> insts = v @ [x])"
    then obtain v where v: "fst m = k" "(k, v) \<in> set objs" "insts = v @ [x]" by blast
    with i(2) have "snd m \<in> set v \<or> snd m = x" by auto
    then show ?thesis
    proof
      assume "snd m \<in> set v"
      with v show ?thesis unfolding member_of_def by blast
    next
      assume "snd m = x"
      with v(1) have "m = (k, x)" by (cases m) simp
      then show ?thesis ..
    qed
  qed
qed

lemma shapely_objs_inv:
  "shapely_objs S ty rows objs = Inr objs' \<Longrightarrow> member_of objs' m \<Longrightarrow>
     member_of objs m \<or> (\<exists>row\<in>set rows. from_row S ty row m)"
proof (induction rows arbitrary: objs)
  case Nil
  then show ?case by simp
next
  case (Cons row rows)
  from Cons.prems(1) obtain inst where inst: "make_inst S ty (meta row) = Inr inst"
    by (auto simp: Let_def split: sum.splits)
  show ?case
  proof (cases "sh_is_valid S inst")
    case True
    with inst Cons.prems(1) have "shapely_objs S ty rows
        (dict_append (dict_setdefault objs (folderName row)) (folderName row)
           (inst, className row, creatorEmail row, attributes row)) = Inr objs'"
      by (simp add: Let_def)
    from Cons.IH[OF this Cons.prems(2)]
    consider "member_of (dict_append (dict_setdefault objs (folderName row)) (folderName row)
           (inst, className row, creatorEmail row, attributes row)) m"
      | "\<exists>row\<in>set rows. from_row S ty row m" by blast
    then show ?thesis
    proof cases
      case 1
      from member_of_append[OF 1]
      have "member_of objs m \<or> m = (folderName row, inst, className row, creatorEmail row, attributes row)"
        using member_of_setdefault by blast
      then show ?thesis using inst True by (auto simp: from_row_def)
    next
      case 2
      then show ?thesis by auto
    qed
  next
    case False
    with inst Cons.prems(1) have "shapely_objs S ty rows (dict_setdefault objs (folderName row)) = Inr objs'"
      by (simp add: Let_def)
    from Cons.IH[OF this Cons.prems(2)] show ?thesis
      using member_of_setdefault[of objs "folderName row" m] by auto
  qed
qed

lemma image_consensus_rows_ok:
  assumes "image_consensus S df img ty = Inr out"
  shows "\<exists>hi. rows_ok (\<lambda>m. \<exists>row\<in>set df. imageName row = img \<and> from_row S ty row m) 0 hi out"
proof -
  from assms obtain calls where tr: "image_consensus_traced S df img ty = Inr (out, calls)"
    by (auto simp: image_consensus_def split: sum.splits)
  then obtain objs where
    objs: "shapely_objs S ty (filter (\<lambda>row. imageName row = img) df) [] = Inr objs"
    by (auto simp: image_consensus_traced_def Let_def split: sum.splits)
  with tr obtain v hi where
    ma: "match_all S ty img (length (remdups (map folderName df))) objs objs
           (map (\<lambda>(proj, instances). (proj, replicate (length instances) False)) objs, 0, [], [])
         = Inr (v, hi, out, calls)"
    by (auto simp: image_consensus_traced_def Let_def split: sum.splits)
  from match_all_inv[OF ma subset_refl] have ok: "rows_ok (member_of objs) 0 hi out" by simp
  have mem: "\<exists>row\<in>set df. imageName row = img \<and> from_row S ty row m" if "member_of objs m" for m
    using shapely_objs_inv[OF objs that] by (auto simp: member_of_def)
  have "rows_ok (\<lambda>m. \<exists>row\<in>set df. imageName row = img \<and> from_row S ty row m) 0 hi out"
  proof (rule rows_okI)
    fix r assume r: "r \<in> set out"
    from rows_okD(5)[OF ok r] mem
    show "\<exists>m. (\<exists>row\<in>set df. imageName row = img \<and> from_row S ty row m) \<and> row_of_member r m" by blast
  qed (use rows_okD[OF ok] in blast)+
  then show ?thesis ..
qed

lemma group_rows_scored:
  assumes "group_rows S img i n g calls = Inr (rows, calls')"
  shows "rows = scored_rows S img n i g \<and> (length g \<noteq> 1 \<longrightarrow> scorer_ok S g)"
proof (cases "length g = 1")
  case True
  with assms show ?thesis by (simp add: group_rows_def scored_rows_def)
next
  case False
  with assms have "score_rows S img i n g g ([], calls) = Inr (rows, calls')"
    by (simp add: group_rows_def)
  from score_rows_map[OF this] False show ?thesis
    by (simp add: scored_rows_def scorer_ok_def)
qed



lemma groups_ok_append: "groups_ok S Q (xs @ ys) \<longleftrightarrow> groups_ok S Q xs \<and> groups_ok S Q ys"
  unfolding groups_ok_def by auto

lemma match_instances_groups:
  "match_instances S ty img n objs curr_proj xs (visited, i, data, calls) = Inr (visited', i', data', calls') \<Longrightarrow>
   \<forall>x\<in>set xs. member_of objs (curr_proj, snd x) \<Longrightarrow>
   \<exists>gs. data' = data @ concat (map (\<lambda>(j, g). scored_rows S img n j g) (enumerate i gs)) \<and>
        i' = i + length gs \<and> groups_ok S (member_of objs) gs"
proof (induction xs arbitrary: visited i data calls)
  case Nil
  then show ?case by (intro exI[of _ "[]"]) (simp add: groups_ok_def)
next
  case (Cons x xs)
  obtain curr_id c where x: "x = (curr_id, c)" by (cases x)
  have memc: "member_of objs (curr_proj, c)" and memxs: "\<forall>x\<in>set xs. member_of objs (curr_proj, snd x)"
    using Cons.prems(2) x by auto
  from Cons.prems(1) obtain v where v: "visited_get visited curr_proj curr_id = Inr v"
    unfolding x by (auto split: sum.splits)
  show ?case
  proof (cases v)
    case True
    with v Cons.prems(1) have "match_instances S ty img n objs curr_proj xs (visited, i, data, calls)
       = Inr (visited', i', data', calls')" unfolding x by simp
    from Cons.IH[OF this memxs] show ?thesis .
  next
    case False
    with v Cons.prems(1) obtain g v1 calls1 where
      mp: "match_projects S ty curr_proj curr_id c objs ([], visited, calls) = Inr (g, v1, calls1)"
      unfolding x by (auto split: sum.splits)
    with v False Cons.prems(1) obtain rows calls2 where
      gr: "group_rows S img i n g calls1 = Inr (rows, calls2)"
      unfolding x by (auto split: sum.splits)
    with v False mp Cons.prems(1) have rest:
      "match_instances S ty img n objs curr_proj xs (v1, i + 1, data @ rows, calls2)
         = Inr (visited', i', data', calls')" unfolding x by simp
    from Cons.IH[OF rest memxs] obtain gs where
      gs: "data' = (data @ rows) @ concat (map (\<lambda>(j, g). scored_rows S img n j g) (enumerate (i + 1) gs))"
      "i' = i + 1 + length gs" "groups_ok S (member_of objs) gs"
      by blast
    have mem: "\<forall>m\<in>set g. member_of objs m"
      using match_projects_inv[OF mp subset_refl memc] by auto
    from group_rows_scored[OF gr] have r: "rows = scored_rows S img n i g"
      and ok: "length g \<noteq> 1 \<longrightarrow> scorer_ok S g" by simp_all
    have "groups_ok S (member_of objs) (g # gs)"
      using gs(3) mem ok by (simp add: groups_ok_def)
    moreover have "data' = data @ concat (map (\<lambda>(j, g). scored_rows S img n j g) (enumerate i (g # gs)))"
      using gs(1) r by simp
    moreover have "i' = i + length (g # gs)" using gs(2) by simp
    ultimately show ?thesis by blast
  qed
qed

lemma match_all_groups:
  "match_all S ty img n objs ps (visited, i, data, calls) = Inr (visited', i', data', calls') \<Longrightarrow>
   set ps \<subseteq> set objs \<Longrightarrow>
   \<exists>gs. data' = data @ concat (map (\<lambda>(j, g). scored_rows S img n j g) (enumerate i gs)) \<and>
        i' = i + length gs \<and> groups_ok S (member_of objs) gs"
proof (induction ps arbitrary: visited i data calls)
  case Nil
  then show ?case by (intro exI[of _ "[]"]) (simp add: groups_ok_def)
next
  case (Cons p ps)
  obtain curr_proj insts where p: "p = (curr_proj, insts)" by (cases p)
  from Cons.prems(1) obtain v1 i1 d1 c1 where
    mi: "match_instances S ty img n objs curr_proj (enumerate 0 insts) (visited, i, data, calls)
          = Inr (v1, i1, d1, c1)"
    unfolding p by (auto split: sum.splits)
  with Cons.prems(1) have rest: "match_all S ty img n objs ps (v1, i1, d1, c1) = Inr (visited', i', data', calls')"
    unfolding p by simp
  have "\<forall>x\<in>set (enumerate 0 insts). member_of objs (curr_proj, snd x)"
  proof
    fix x assume "x \<in> set (enumerate 0 insts)"
    then have "snd x \<in> snd ` set (enumerate 0 insts)" by (rule imageI)
    then have "snd x \<in> set insts" by (simp only: snd_set_enumerate)
    moreover have "(curr_proj, insts) \<in> set objs" using Cons.prems(2) p by auto
    ultimately show "member_of objs (curr_proj, snd x)" by (auto simp: member_of_def)
  qed
  from match_instances_groups[OF mi this] obtain gs1 where
    g1: "d1 = data @ concat (map (\<lambda>(j, g). scored_rows S img n j g) (enumerate i gs1))"
    "i1 = i + length gs1" "groups_ok S (member_of objs) gs1" by blast
  from Cons.IH[OF rest] Cons.prems(2) obtain gs2 where
    g2: "data' = d1 @ concat (map (\<lambda>(j, g). scored_rows S img n j g) (enumerate i1 gs2))"
    "i' = i1 + length gs2" "groups_ok S (member_of objs) gs2" by auto
  have "data' = data @ concat (map (\<lambda>(j, g). scored_rows S img n j g) (enumerate i (gs1 @ gs2)))"
    using g1(1,2) g2(1) by (simp add: enumerate_append_eq)
  moreover have "i' = i + length (gs1 @ gs2)" using g1(2) g2(2) by simp
  moreover have "groups_ok S (member_of objs) (gs1 @ gs2)"
    using g1(3) g2(3) by (simp add: groups_ok_append)
  ultimately show ?case by blast
qed

lemma image_consensus_groups:
  assumes "image_consensus S df img ty = Inr out"
  shows "\<exists>gs. out = concat (map (\<lambda>(j, g). scored_rows S img (card (set (map folderName df))) j g)
                               (enumerate 0 gs)) \<and>
              groups_ok S (\<lambda>m. \<exists>row\<in>set df. imageName row = img \<and> from_row S ty row m) gs"
proof -
  from assms obtain calls where tr: "image_consensus_traced S df img ty = Inr (out, calls)"
    by (auto simp: image_consensus_def split: sum.splits)
  then obtain objs where
    objs: "shapely_objs S ty (filter (\<lambda>row. imageName row = img) df) [] = Inr objs"
    by (auto simp: image_consensus_traced_def Let_def split: sum.splits)
  with tr obtain v hi where
    ma: "match_all S ty img (length (remdups (map folderName df))) objs objs
           (map (\<lambda>(proj, instances). (proj, replicate (length instances) False)) objs, 0, [], [])
         = Inr (v, hi, out, calls)"
    by (auto simp: image_consensus_traced_def Let_def split: sum.splits)
  from match_all_groups[OF ma subset_refl] obtain gs where
    gs: "out = concat (map (\<lambda>(j, g). scored_rows S img (length (remdups (map folderName df))) j g)
                         (enumerate 0 gs))"
    "groups_ok S (member_of objs) gs" by auto
  have mem: "\<exists>row\<in>set df. imageName row = img \<and> from_row S ty row m" if "member_of objs m" for m
    using shapely_objs_inv[OF objs that] by (auto simp: member_of_def)
  have "groups_ok S (\<lambda>m. \<exists>row\<in>set df. imageName row = img \<and> from_row S ty row m) gs"
    using gs(2) mem unfolding groups_ok_def by blast
  with gs(1) show ?thesis by (auto simp: length_remdups_card_conv)
qed

lemma clamped_score_pos:
  "instance_consensus S (fst (snd c)) (fst (snd m)) = Inr s \<Longrightarrow> 0 < clamped_score S c m"
  by (simp add: clamped_score_def)

lemma sum_list_pos_nonempty:
  fixes xs :: "real list"
  shows "xs \<noteq> [] \<Longrightarrow> \<forall>x\<in>set xs. 0 < x \<Longrightarrow> 0 < sum_list xs"
  by (induction xs) (auto intro: add_pos_nonneg sum_list_nonneg less_imp_le)

lemma mean_iff_all_represented:
  assumes ok: "\<forall>m\<in>set (other_members c g). \<exists>s. instance_consensus S (fst (snd c)) (fst (snd m)) = Inr s"
    and ne: "other_members c g \<noteq> []"
  shows "sum_list (map (clamped_score S c) (other_members c g)) / (real n - 1)
           = mean_over_represented S c g
         \<longleftrightarrow> real (length (other_members c g)) = real n - 1"
proof -
  have "\<forall>x\<in>set (map (clamped_score S c) (other_members c g)). 0 < x"
    using ok clamped_score_pos by fastforce
  moreover have "map (clamped_score S c) (other_members c g) \<noteq> []" using ne by simp
  ultimately have "0 < sum_list (map (clamped_score S c) (other_members c g))"
    by (rule sum_list_pos_nonempty[rotated])
  then show ?thesis
    unfolding mean_over_represented_def by (auto simp: divide_cancel_left)
qed
















lemmas consensus_eval =
  image_consensus_def image_consensus_traced_def make_inst_def ebind_def as_num_def rect_ops_def
  instance_consensus_def visited_get_def visited_set_def score_gt_def group_rows_def mk_row_def
  r_union_area_def Let_def ex_box_row_def ex_member_def ex_df_three_def ex_df_mixed_def

section \<open>Theorems about the scorer and the matcher\<close>

text \<open>
  C3 (amended).  The scorer has no guard for a union of zero area.  For two geometries of
  type Polygon it returns intersection area over union area whenever the union area is
  not zero; when the union area is zero the division raises \<open>ZeroDivisionError\<close> and no
  score is returned.
\<close>

theorem instance_consensus_polygon:
  "sh_type S a = ''Polygon'' \<Longrightarrow> sh_type S b = ''Polygon'' \<Longrightarrow>
     instance_consensus S a b =
       (if sh_union_area S a b = 0 then Inl ZeroDivisionError
        else Inr (sh_inter_area S a b / sh_union_area S a b))"
  by (simp add: instance_consensus_def)

theorem instance_consensus_polygon_witness:
  "sh_type rect_ops (Rect 0 0 2 2) = ''Polygon'' \<and> sh_type rect_ops (Rect 1 0 3 2) = ''Polygon'' \<and>
   instance_consensus rect_ops (Rect 0 0 2 2) (Rect 1 0 3 2) = Inr (1 / 3)"
proof -
  have h1: "sh_type rect_ops (Rect 0 0 2 2) = ''Polygon''" by (simp add: rect_ops_def)
  have h2: "sh_type rect_ops (Rect 1 0 3 2) = ''Polygon''" by (simp add: rect_ops_def)
  show ?thesis
    using h1 h2 instance_consensus_polygon[OF h1 h2] by (simp add: rect_ops_def r_union_area_def)
qed

text \<open>
  C3 as stated fails: two degenerate boxes that do not overlap are of type Polygon, their
  union has area zero, and the scorer raises instead of returning \<open>0\<close>.
\<close>

theorem instance_consensus_zero_union_raises:
  "sh_type rect_ops (sh_box rect_ops 0 0 0 0) = ''Polygon'' \<and>
   sh_type rect_ops (sh_box rect_ops 5 5 5 5) = ''Polygon'' \<and>
   sh_union_area rect_ops (sh_box rect_ops 0 0 0 0) (sh_box rect_ops 5 5 5 5) = 0 \<and>
   instance_consensus rect_ops (sh_box rect_ops 0 0 0 0) (sh_box rect_ops 5 5 5 5) = Inl ZeroDivisionError \<and>
   instance_consensus rect_ops (sh_box rect_ops 0 0 0 0) (sh_box rect_ops 5 5 5 5) \<noteq> Inr 0"
  by (simp add: consensus_eval)

text \<open>
  C9.  The scorer is reflexive at the perfect value.  For a polygon \<open>A\<close> of non-zero area,
  in any geometry where intersecting or uniting \<open>A\<close> with itself leaves its area
  unchanged, \<open>score(A, A) = 1\<close>; for a point \<open>P\<close> at distance zero from itself,
  \<open>score(P, P) = 0\<close>.  In the rectangle geometry both hold for every non-degenerate box
  and every point.
\<close>

theorem instance_consensus_reflexive:
  "(sh_type S A = ''Polygon'' \<longrightarrow> sh_area S A \<noteq> 0 \<longrightarrow> sh_inter_area S A A = sh_area S A \<longrightarrow>
      sh_union_area S A A = sh_area S A \<longrightarrow> instance_consensus S A A = Inr 1) \<and>
   (sh_type S P = ''Point'' \<longrightarrow> sh_distance S P P = 0 \<longrightarrow> instance_consensus S P P = Inr 0) \<and>
   (x1 < x2 \<longrightarrow> y1 < y2 \<longrightarrow>
      instance_consensus rect_ops (sh_box rect_ops x1 y1 x2 y2) (sh_box rect_ops x1 y1 x2 y2) = Inr 1) \<and>
   instance_consensus rect_ops (sh_Point rect_ops x y) (sh_Point rect_ops x y) = Inr 0"
  by (simp add: instance_consensus_def rect_ops_def r_union_area_def)

theorem instance_consensus_reflexive_witness:
  "sh_type rect_ops (Rect 0 0 2 3) = ''Polygon'' \<and> sh_area rect_ops (Rect 0 0 2 3) \<noteq> 0 \<and>
   sh_inter_area rect_ops (Rect 0 0 2 3) (Rect 0 0 2 3) = sh_area rect_ops (Rect 0 0 2 3) \<and>
   sh_union_area rect_ops (Rect 0 0 2 3) (Rect 0 0 2 3) = sh_area rect_ops (Rect 0 0 2 3) \<and>
   instance_consensus rect_ops (Rect 0 0 2 3) (Rect 0 0 2 3) = Inr 1 \<and>
   sh_type rect_ops (Pt 1 2) = ''Point'' \<and> sh_distance rect_ops (Pt 1 2) (Pt 1 2) = 0 \<and>
   instance_consensus rect_ops (Pt 1 2) (Pt 1 2) = Inr 0 \<and>
   (0::real) < 2 \<and> (0::real) < 3 \<and>
   instance_consensus rect_ops (sh_box rect_ops 0 0 2 3) (sh_box rect_ops 0 0 2 3) = Inr 1"
proof -
  have h: "sh_type rect_ops (Rect 0 0 2 3) = ''Polygon''" "sh_area rect_ops (Rect 0 0 2 3) \<noteq> 0"
    "sh_inter_area rect_ops (Rect 0 0 2 3) (Rect 0 0 2 3) = sh_area rect_ops (Rect 0 0 2 3)"
    "sh_union_area rect_ops (Rect 0 0 2 3) (Rect 0 0 2 3) = sh_area rect_ops (Rect 0 0 2 3)"
    "sh_type rect_ops (Pt 1 2) = ''Point''" "sh_distance rect_ops (Pt 1 2) (Pt 1 2) = 0"
    by (simp_all add: rect_ops_def r_union_area_def)
  show ?thesis
    using h instance_consensus_reflexive[of rect_ops "Rect 0 0 2 3" "Pt 1 2" 0 2 0 3 1 2] by simp
qed

text \<open>
  C1 (amended).  The result of \<open>image_consensus\<close> is the concatenation, over the match
  groups in the order they are formed, of the rows of each group, numbered from \<open>0\<close>.
  A group of one instance gives one row of score \<open>0\<close>.  Any other group gives one row per
  member, whose score is the sum, over the members of the group that belong to another
  folder, of the pairwise score (a score \<open>\<le> 0\<close> counting as \<open>1.0\<close>), divided by the
  number of distinct folders of the whole table minus one.  Every member stems from a row
  of the table for this image, and every pairwise scorer call succeeded.  For a member
  with at least one counterpart, this score is the mean over the other folders
  represented in the group exactly when the number of those folders is the number of
  folders of the table minus one, that is, when every other folder of the table is
  represented.
\<close>

theorem score_divides_by_table_folders:
  assumes "image_consensus S df img ty = Inr out"
  shows "\<exists>gs.
    out = concat (map (\<lambda>(i, g).
            if length g = 1 then [mk_row S img i (g ! 0) 0]
            else map (\<lambda>c. mk_row S img i c
                         (sum_list (map (clamped_score S c) (other_members c g))
                            / (real (card (set (map folderName df))) - 1))) g)
          (enumerate 0 gs)) \<and>
    (\<forall>g\<in>set gs.
       (\<forall>m\<in>set g. \<exists>row\<in>set df. imageName row = img \<and> from_row S ty row m) \<and>
       (length g \<noteq> 1 \<longrightarrow>
          (\<forall>c\<in>set g.
             (\<forall>m\<in>set (other_members c g).
                 \<exists>s. instance_consensus S (fst (snd c)) (fst (snd m)) = Inr s) \<and>
             (other_members c g \<noteq> [] \<longrightarrow>
                (sum_list (map (clamped_score S c) (other_members c g))
                     / (real (card (set (map folderName df))) - 1)
                   = mean_over_represented S c g
                 \<longleftrightarrow> real (length (other_members c g))
                       = real (card (set (map folderName df))) - 1)))))"
proof -
  from image_consensus_groups[OF assms] obtain gs where
    out: "out = concat (map (\<lambda>(j, g). scored_rows S img (card (set (map folderName df))) j g)
                               (enumerate 0 gs))" and
    ok: "groups_ok S (\<lambda>m. \<exists>row\<in>set df. imageName row = img \<and> from_row S ty row m) gs" by blast
  have "\<forall>g\<in>set gs.
       (\<forall>m\<in>set g. \<exists>row\<in>set df. imageName row = img \<and> from_row S ty row m) \<and>
       (length g \<noteq> 1 \<longrightarrow>
          (\<forall>c\<in>set g.
             (\<forall>m\<in>set (other_members c g).
                 \<exists>s. instance_consensus S (fst (snd c)) (fst (snd m)) = Inr s) \<and>
             (other_members c g \<noteq> [] \<longrightarrow>
                (sum_list (map (clamped_score S c) (other_members c g))
                     / (real (card (set (map folderName df))) - 1)
                   = mean_over_represented S c g
                 \<longleftrightarrow> real (length (other_members c g))
                       = real (card (set (map folderName df))) - 1))))"
  proof (intro ballI conjI impI)
    fix g m assume "g \<in> set gs" "m \<in> set g"
    with ok show "\<exists>row\<in>set df. imageName row = img \<and> from_row S ty row m"
      unfolding groups_ok_def by blast
  next
    fix g c m assume "g \<in> set gs" "length g \<noteq> 1" "c \<in> set g" "m \<in> set (other_members c g)"
    with ok show "\<exists>s. instance_consensus S (fst (snd c)) (fst (snd m)) = Inr s"
      unfolding groups_ok_def scorer_ok_def by blast
  next
    fix g c assume g: "g \<in> set gs" "length g \<noteq> 1" "c \<in> set g" and ne: "other_members c g \<noteq> []"
    from g ok have "\<forall>m\<in>set (other_members c g).
        \<exists>s. instance_consensus S (fst (snd c)) (fst (snd m)) = Inr s"
      unfolding groups_ok_def scorer_ok_def by blast
    from mean_iff_all_represented[OF this ne]
    show "sum_list (map (clamped_score S c) (other_members c g))
                     / (real (card (set (map folderName df))) - 1)
                   = mean_over_represented S c g
                 \<longleftrightarrow> real (length (other_members c g))
                       = real (card (set (map folderName df))) - 1" .
  qed
  with out show ?thesis unfolding scored_rows_def by blast
qed

theorem score_divides_by_table_folders_witness:
  "image_consensus rect_ops ex_df_three ''img'' ''bbox''
     = Inr [mk_row rect_ops ''img'' 0 (ex_member ''A'' ''car'') (1 / 2),
            mk_row rect_ops ''img'' 0 (ex_member ''B'' ''car'') (1 / 2)] \<and>
   card (set (map folderName ex_df_three)) = 3 \<and>
   (\<exists>gs. [mk_row rect_ops ''img'' 0 (ex_member ''A'' ''car'') (1 / 2),
           mk_row rect_ops ''img'' 0 (ex_member ''B'' ''car'') (1 / 2)]
          = concat (map (\<lambda>(i, g).
              if length g = 1 then [mk_row rect_ops ''img'' i (g ! 0) 0]
              else map (\<lambda>c. mk_row rect_ops ''img'' i c
                           (sum_list (map (clamped_score rect_ops c) (other_members c g))
                              / (real (card (set (map folderName ex_df_three))) - 1))) g)
            (enumerate 0 gs)))"
proof -
  have h: "image_consensus rect_ops ex_df_three ''img'' ''bbox''
     = Inr [mk_row rect_ops ''img'' 0 (ex_member ''A'' ''car'') (1 / 2),
            mk_row rect_ops ''img'' 0 (ex_member ''B'' ''car'') (1 / 2)]"
    by (simp add: consensus_eval)
  have c: "card (set (map folderName ex_df_three)) = 3"
    by (simp add: ex_df_three_def ex_box_row_def)
  from score_divides_by_table_folders[OF h] obtain gs where
    "[mk_row rect_ops ''img'' 0 (ex_member ''A'' ''car'') (1 / 2),
      mk_row rect_ops ''img'' 0 (ex_member ''B'' ''car'') (1 / 2)]
          = concat (map (\<lambda>(i, g).
              if length g = 1 then [mk_row rect_ops ''img'' i (g ! 0) 0]
              else map (\<lambda>c. mk_row rect_ops ''img'' i c
                           (sum_list (map (clamped_score rect_ops c) (other_members c g))
                              / (real (card (set (map folderName ex_df_three))) - 1))) g)
            (enumerate 0 gs))" by blast
  then have "\<exists>gs. [mk_row rect_ops ''img'' 0 (ex_member ''A'' ''car'') (1 / 2),
           mk_row rect_ops ''img'' 0 (ex_member ''B'' ''car'') (1 / 2)]
          = concat (map (\<lambda>(i, g).
              if length g = 1 then [mk_row rect_ops ''img'' i (g ! 0) 0]
              else map (\<lambda>c. mk_row rect_ops ''img'' i c
                           (sum_list (map (clamped_score rect_ops c) (other_members c g))
                              / (real (card (set (map folderName ex_df_three))) - 1))) g)
            (enumerate 0 gs))" ..
  with h c show ?thesis by blast
qed

text \<open>
  C1 as stated fails.  The table has three folders; the image has the same box of class
  car in folders A and B and nothing in folder C.  The group has two members and the only
  pairwise score is \<open>1\<close>, so the mean over the other folders represented in the group is
  \<open>1\<close>, but the code divides by \<open>3 - 1\<close> and reports \<open>1/2\<close>.
\<close>

theorem group_score_not_mean_over_represented:
  "image_consensus rect_ops ex_df_three ''img'' ''bbox''
     = Inr [mk_row rect_ops ''img'' 0 (ex_member ''A'' ''car'') (1 / 2),
            mk_row rect_ops ''img'' 0 (ex_member ''B'' ''car'') (1 / 2)] \<and>
   r_score (mk_row rect_ops ''img'' 0 (ex_member ''A'' ''car'') (1 / 2)) = 1 / 2 \<and>
   mean_over_represented rect_ops (ex_member ''A'' ''car'')
     [ex_member ''A'' ''car'', ex_member ''B'' ''car''] = 1"
  by (simp add: consensus_eval mean_over_represented_def clamped_score_def other_members_def)




text \<open>
  C6.  Rows that share an instance id form a match group.  A row that is alone in its
  group has score \<open>0\<close>, and every row of the result stems from a row of the table for
  this image, with the row's folder, class name, creator and attributes, whose geometry
  is valid: no row is made up for a folder that has no instance to contribute.
\<close>

theorem single_instance_group_score_zero:
  assumes "image_consensus S df img ty = Inr out" and "r \<in> set out"
  shows "(length (filter (\<lambda>r'. r_instanceId r' = r_instanceId r) out) = 1 \<longrightarrow> r_score r = 0) \<and>
         (\<exists>row\<in>set df. imageName row = img \<and> folderName row = r_folderName r \<and>
             className row = r_className r \<and> creatorEmail row = r_creatorEmail r \<and>
             attributes row = r_attributes r \<and>
             (\<exists>inst. make_inst S ty (meta row) = Inr inst \<and> sh_is_valid S inst))"
proof -
  from image_consensus_rows_ok[OF assms(1)] obtain hi where
    ok: "rows_ok (\<lambda>m. \<exists>row\<in>set df. imageName row = img \<and> from_row S ty row m) 0 hi out" ..
  from rows_okD(5)[OF ok assms(2)] obtain m row where
    "row \<in> set df" "imageName row = img" "from_row S ty row m" "row_of_member r m" by blast
  then have "\<exists>row\<in>set df. imageName row = img \<and> folderName row = r_folderName r \<and>
             className row = r_className r \<and> creatorEmail row = r_creatorEmail r \<and>
             attributes row = r_attributes r \<and>
             (\<exists>inst. make_inst S ty (meta row) = Inr inst \<and> sh_is_valid S inst)"
    by (intro bexI[of _ row]) (auto simp: from_row_def row_of_member_def)
  with rows_okD(3)[OF ok assms(2)] show ?thesis by blast
qed

theorem single_instance_group_score_zero_witness:
  "image_consensus rect_ops ex_df_mixed ''img'' ''bbox''
     = Inr [mk_row rect_ops ''img'' 0 (ex_member ''A'' ''car'') 0,
            mk_row rect_ops ''img'' 1 (ex_member ''B'' ''dog'') 0] \<and>
   length (filter (\<lambda>r'. r_instanceId r' = r_instanceId (mk_row rect_ops ''img'' 0 (ex_member ''A'' ''car'') 0))
             [mk_row rect_ops ''img'' 0 (ex_member ''A'' ''car'') 0,
              mk_row rect_ops ''img'' 1 (ex_member ''B'' ''dog'') 0]) = 1 \<and>
   r_score (mk_row rect_ops ''img'' 0 (ex_member ''A'' ''car'') 0) = 0 \<and>
   (\<exists>row\<in>set ex_df_mixed. imageName row = ''img'' \<and> folderName row = ''A'' \<and> className row = ''car'')"
proof -
  let ?a = "mk_row rect_ops ''img'' 0 (ex_member ''A'' ''car'') 0"
  let ?b = "mk_row rect_ops ''img'' 1 (ex_member ''B'' ''dog'') 0"
  have h1: "image_consensus rect_ops ex_df_mixed ''img'' ''bbox'' = Inr [?a, ?b]"
    by (simp add: consensus_eval)
  have h2: "?a \<in> set [?a, ?b]" by simp
  have h3: "length (filter (\<lambda>r'. r_instanceId r' = r_instanceId ?a) [?a, ?b]) = 1"
    by (simp add: mk_row_id)
  have f: "r_folderName ?a = ''A''" "r_className ?a = ''car''"
    by (simp_all add: mk_row_def ex_member_def)
  from single_instance_group_score_zero[OF h1 h2] h3 f
  have "r_score ?a = 0 \<and>
    (\<exists>row\<in>set ex_df_mixed. imageName row = ''img'' \<and> folderName row = ''A'' \<and> className row = ''car'')"
    by auto
  with h1 h3 show ?thesis by blast
qed

section \<open>Lemmas about the aggregation\<close>

lemma py_get_obj: "py_get (JObj kvs) k = Inr (field (JObj kvs) k)"
  by (simp add: field_def split: option.splits)

lemma py_get_Inr: "py_get a k = Inr v \<Longrightarrow> is_obj a \<and> v = field a k"
  by (cases a) (auto simp: field_def split: option.splits)

lemma py_get_is_obj: "is_obj a \<Longrightarrow> py_get a k = Inr (field a k)"
  by (cases a) (auto simp: field_def split: option.splits)

lemma py_get_default_type: "is_obj a \<Longrightarrow> py_get_default a ''type'' (JStr ''mask'') = Inr (type_of a)"
  by (cases a) (auto simp: field_def type_of_def split: option.splits)


lemma cell_append_annotation:
  "cell (append_annotation columns d) k =
     (if k \<in> set columns then (case map_of d k of Some v \<Rightarrow> v | None \<Rightarrow> JNull) else JNull)"
proof -
  have "map_of (map (\<lambda>c. (c, case map_of d c of Some v \<Rightarrow> v | None \<Rightarrow> JNull)) columns) k
          = (if k \<in> set columns then Some (case map_of d k of Some v \<Rightarrow> v | None \<Rightarrow> JNull) else None)"
    by (induction columns) auto
  then show ?thesis by (simp add: cell_def append_annotation_def)
qed

lemma process_attributes_result:
  assumes "process_attributes groups c columns mk alist (n, rows, logs) = Inr (n', rows', logs')"
    and "jdict_find groups c = Some gs"
  shows "n' = n + length (filter (attr_valid gs) alist) \<and>
         rows' = rows @ map (\<lambda>a. append_annotation columns (mk (field a ''groupName'') (field a ''name'')))
                            (filter (attr_valid gs) alist)"
  using assms(1)
proof (induction alist arbitrary: n rows logs)
  case Nil
  then show ?case by simp
next
  case (Cons a alist)
  from Cons.prems obtain g where g: "py_get a ''groupName'' = Inr g"
    by (auto split: sum.splits)
  with Cons.prems obtain nm where nm: "py_get a ''name'' = Inr nm"
    by (auto split: sum.splits)
  from py_get_Inr[OF g] py_get_Inr[OF nm] have f: "g = field a ''groupName''" "nm = field a ''name''"
    by simp_all
  from Cons.prems g nm assms(2) obtain look where look: "jdict_get gs g = Inr look"
    by (auto split: sum.splits)
  then have hk: "hashable g" and lk: "look = jdict_find gs g"
    by (auto simp: jdict_get_def split: if_splits)
  show ?case
  proof (cases "attr_valid gs a")
    case True
    then obtain vals where v: "jdict_find gs g = Some vals" "list_contains vals nm"
      by (auto simp: attr_valid_def f split: option.splits)
    with Cons.prems g nm assms(2) look lk have
      "process_attributes groups c columns mk alist
         (n + 1, rows @ [append_annotation columns (mk g nm)], logs) = Inr (n', rows', logs')"
      by simp
    from Cons.IH[OF this] True f show ?thesis by simp
  next
    case False
    then have "look = None \<or> (\<exists>vals. look = Some vals \<and> \<not> list_contains vals nm)"
      by (cases look) (auto simp: attr_valid_def f lk)
    with Cons.prems g nm assms(2) look obtain logs1 where
      "process_attributes groups c columns mk alist (n, rows, logs1) = Inr (n', rows', logs')"
      by auto
    from Cons.IH[OF this] False show ?thesis by simp
  qed
qed


lemma process_attributes_total:
  assumes "jdict_find groups c = Some gs" and "\<forall>a\<in>set alist. attr_wf a"
  shows "\<exists>res. process_attributes groups c columns mk alist (n, rows, logs) = Inr res"
  using assms(2)
proof (induction alist arbitrary: n rows logs)
  case Nil
  then show ?case by simp
next
  case (Cons a alist)
  then have wf: "is_obj a" "hashable (field a ''groupName'')" and rest: "\<forall>a\<in>set alist. attr_wf a"
    by (auto simp: attr_wf_def)
  have g: "py_get a ''groupName'' = Inr (field a ''groupName'')"
    and nm: "py_get a ''name'' = Inr (field a ''name'')"
    using wf(1) by (simp_all add: py_get_is_obj)
  have look: "jdict_get gs (field a ''groupName'') = Inr (jdict_find gs (field a ''groupName''))"
    using wf(2) by (simp add: jdict_get_def)
  show ?case
  proof (cases "jdict_find gs (field a ''groupName'')")
    case None
    with g nm look assms(1) Cons.IH[OF rest] show ?thesis by simp
  next
    case (Some vals)
    with g nm look assms(1) Cons.IH[OF rest] show ?thesis by simp
  qed
qed

lemma py_get_default_Inr: "py_get_default a k d = Inr v \<Longrightarrow> is_obj a"
  by (cases a) auto

lemma process_instance_obj:
  assumes "is_obj annotation"
  shows "process_instance P colors groups columns image_name image_metadata dirs annotation
           (i, rows, logs) =
     (case (if field annotation ''className'' = JNull then Inr None
            else jdict_get colors (field annotation ''className'')) of
        Inl e \<Rightarrow> Inl e
      | Inr None \<Rightarrow>
          Inr (i, rows,
               logs @ [Warning ''Annotation class %s not found in classes json. Skipping.''
                         (field annotation ''className'')])
      | Inr (Some color) \<Rightarrow>
          (case annotation_meta (type_of annotation) annotation of
             Inl e \<Rightarrow> Inl e
           | Inr m \<Rightarrow>
               (case get_user_metadata P annotation of
                  Inl e \<Rightarrow> Inl e
                | Inr um \<Rightarrow>
                    (case (if \<not> py_truthy (field annotation ''attributes'') then
                             Inr (1, rows @ [instance_row columns image_name i dirs annotation color m
                                               um image_metadata []], logs)
                           else
                             (case py_iter (field annotation ''attributes'') of
                                Inl e \<Rightarrow> Inl e
                              | Inr alist \<Rightarrow>
                                  process_attributes groups (field annotation ''className'') columns
                                    (\<lambda>g n. instance_dict image_name i (field annotation ''className'')
                                       [(''attributeGroupName'', g), (''attributeName'', n)]
                                       (type_of annotation) (field annotation ''locked'')
                                       (field annotation ''visible'') (field annotation ''trackingId'') m
                                       (field annotation ''error'') (field annotation ''probability'')
                                       (field annotation ''pointLabels'') color (field annotation ''groupId'')
                                       (folder_name_of dirs) um image_metadata)
                                    alist (0, rows, logs))) of
                       Inl e \<Rightarrow> Inl e
                     | Inr (num_added, rows', logs') \<Rightarrow>
                         Inr (if num_added > 0 then i + 1 else i, rows', logs')))))"
  using assms
  by (simp add: process_instance_def ebind_def py_get_is_obj py_get_default_type instance_row_def
        Let_def split: sum.splits option.splits prod.splits)

lemma get_user_metadata_keys:
  "get_user_metadata P a = Inr um \<Longrightarrow> map fst um = user_metadata_keys"
  by (auto simp: get_user_metadata_def ebind_def user_metadata_keys_def split: sum.splits)


lemma map_of_absent: "map fst xs = ks \<Longrightarrow> k \<notin> set ks \<Longrightarrow> map_of xs k = None"
  by (induction xs arbitrary: ks) auto

lemma instance_row_cells:
  assumes um: "map fst um = user_metadata_keys" and im: "map fst im = image_metadata_keys"
    and af: "af = [] \<or> (\<exists>a. af = attribute_fields_of a)"
  shows "cell (instance_row (table_columns ic it) image_name i dirs annotation color m um im af) ''type''
           = type_of annotation"
    and "cell (instance_row (table_columns ic it) image_name i dirs annotation color m um im af) ''meta'' = m"
    and "cell (instance_row (table_columns ic it) image_name i dirs annotation color m um im af) ''folderName''
           = folder_name_of dirs"
    and "cell (instance_row (table_columns ic it) image_name i dirs annotation color m um im af) ''instanceId''
           = JNum (real i)"
    and "cell (instance_row (table_columns ic it) image_name i dirs annotation color m um im []) ''attributeGroupName''
           = JNull"
    and "cell (instance_row (table_columns ic it) image_name i dirs annotation color m um im []) ''attributeName''
           = JNull"
    and "cell (instance_row (table_columns ic it) image_name i dirs annotation color m um im (attribute_fields_of a)) ''attributeGroupName''
           = field a ''groupName''"
    and "cell (instance_row (table_columns ic it) image_name i dirs annotation color m um im (attribute_fields_of a)) ''attributeName''
           = field a ''name''"
proof -
  have u: "map_of um ''type'' = None" "map_of um ''meta'' = None" "map_of um ''folderName'' = None"
    "map_of um ''instanceId'' = None" "map_of um ''attributeGroupName'' = None"
    "map_of um ''attributeName'' = None"
    by (rule map_of_absent[OF um], simp add: user_metadata_keys_def)+
  have i: "map_of im ''type'' = None" "map_of im ''meta'' = None" "map_of im ''folderName'' = None"
    "map_of im ''instanceId'' = None" "map_of im ''attributeGroupName'' = None"
    "map_of im ''attributeName'' = None"
    by (rule map_of_absent[OF im], simp add: image_metadata_keys_def)+
  note defs = instance_row_def cell_append_annotation instance_dict_def dict_update_def
    table_columns_def base_columns_def map_of_append attribute_fields_of_def
  show "cell (instance_row (table_columns ic it) image_name i dirs annotation color m um im af) ''type''
           = type_of annotation"
    using u i af by (auto simp: defs map_add_def)
  show "cell (instance_row (table_columns ic it) image_name i dirs annotation color m um im af) ''meta'' = m"
    using u i af by (auto simp: defs map_add_def)
  show "cell (instance_row (table_columns ic it) image_name i dirs annotation color m um im af) ''folderName''
           = folder_name_of dirs"
    using u i af by (auto simp: defs map_add_def)
  show "cell (instance_row (table_columns ic it) image_name i dirs annotation color m um im af) ''instanceId''
           = JNum (real i)"
    using u i af by (auto simp: defs map_add_def)
  show "cell (instance_row (table_columns ic it) image_name i dirs annotation color m um im []) ''attributeGroupName''
           = JNull"
    using u i by (simp add: defs map_add_def)
  show "cell (instance_row (table_columns ic it) image_name i dirs annotation color m um im []) ''attributeName''
           = JNull"
    using u i by (simp add: defs map_add_def)
  show "cell (instance_row (table_columns ic it) image_name i dirs annotation color m um im (attribute_fields_of a)) ''attributeGroupName''
           = field a ''groupName''"
    using u i by (simp add: defs map_add_def)
  show "cell (instance_row (table_columns ic it) image_name i dirs annotation color m um im (attribute_fields_of a)) ''attributeName''
           = field a ''name''"
    using u i by (simp add: defs map_add_def)
qed

















section \<open>Theorems about the aggregation\<close>

lemmas agg_eval =
  aggregate_image_annotations_as_df_def ex_pandas_def ex_classes_def ex_file_def ex_root_nested_def
  ex_root_flat_def ex_car_def ex_pedestrian_def ex_colors_def ex_groups_def
  ex_user_metadata_def ex_image_metadata_def ex_points_def ex_car_row_def ex_skip_warning_def
  ex_info_def ex_attr_def ex_car_attrs_def ex_mask_def ex_untyped_def
  ebind_def Let_def collect_paths_def suffix_to_prefix suffix_is_json_def sublist_Cons_right
  jdict_set_def jdict_get_def py_eq_def process_path_def split_two_def get_image_metadata_def
  process_instance_def table_columns_def base_columns_def annotation_meta_def list_contains_def
  get_user_metadata_def actor_fields_def folder_name_of_def append_annotation_def instance_dict_def
  dict_update_def cell_def instance_row_def field_def type_of_def classes_file_present_def
  user_metadata_keys_def image_metadata_keys_def attr_valid_def attr_wf_def attribute_fields_of_def

text \<open>
  C7.  When \<open>classes/classes.json\<close> is not a file under the export root, the aggregation
  returns no table: it raises an \<open>AppException\<close>, either the one for the missing classes
  file or, when the first JSON file directly under the root is named neither as a pixel
  nor as an objects annotation, the one raised before the classes file is looked for.
\<close>

theorem missing_classes_file_raises:
  assumes "\<not> classes_file_present project_root"
  shows "aggregate_image_annotations_as_df P project_root include_classes_wo_annotations
           include_comments include_tags folder_names = Inl (AppException ClassesFileNotFound)
       \<or> aggregate_image_annotations_as_df P project_root include_classes_wo_annotations
           include_comments include_tags folder_names = Inl (AppException DepricatedDocumentVideo)"
  using assms
  by (auto simp: aggregate_image_annotations_as_df_def classes_file_present_def Let_def
           split: option.splits fsnode.splits)

theorem missing_classes_file_raises_witness:
  "\<not> classes_file_present (Dir []) \<and>
   aggregate_image_annotations_as_df ex_pandas (Dir []) False False False None
     = Inl (AppException ClassesFileNotFound)"
proof -
  have h: "\<not> classes_file_present (Dir [])" by (simp add: classes_file_present_def)
  have d: "aggregate_image_annotations_as_df ex_pandas (Dir []) False False False None
             \<noteq> Inl (AppException DepricatedDocumentVideo)"
    by (simp add: aggregate_image_annotations_as_df_def)
  from missing_classes_file_raises[OF h, of ex_pandas False False False None] d h show ?thesis by blast
qed

text \<open>
  C4.  An instance whose \<open>className\<close> is missing or is not a key of the table loaded from
  the classes file is skipped by the loop body: the instance counter and the rows are
  left as they were, one warning is logged, and nothing is raised.
\<close>

theorem unknown_class_instance_skipped:
  assumes "is_obj annotation"
    and "field annotation ''className'' = JNull \<or>
         (hashable (field annotation ''className'') \<and>
          jdict_find class_name_to_color (field annotation ''className'') = None)"
  shows "process_instance P class_name_to_color class_group_name_to_values columns image_name
           image_metadata dirs annotation (annotation_instance_id, rows, logs)
         = Inr (annotation_instance_id, rows,
                logs @ [Warning ''Annotation class %s not found in classes json. Skipping.''
                          (field annotation ''className'')])"
  using assms(2) by (auto simp: process_instance_obj[OF assms(1)] jdict_get_def)

theorem unknown_class_instance_skipped_witness:
  "is_obj ex_pedestrian \<and> hashable (field ex_pedestrian ''className'') \<and>
   jdict_find ex_colors (field ex_pedestrian ''className'') = None \<and>
   process_instance ex_pandas ex_colors ex_groups (table_columns False False) ''img''
     ex_image_metadata [] ex_pedestrian (1, [ex_car_row []], [ex_info])
     = Inr (1, [ex_car_row []], [ex_info, ex_skip_warning]) \<and>
   aggregate_image_annotations_as_df ex_pandas ex_root_flat False False False None
     = Inr ([ex_car_row []], [ex_info, ex_skip_warning])"
proof -
  have h1: "is_obj ex_pedestrian" by (simp add: ex_pedestrian_def)
  have h2: "field ex_pedestrian ''className'' = JNull \<or>
         (hashable (field ex_pedestrian ''className'') \<and>
          jdict_find ex_colors (field ex_pedestrian ''className'') = None)"
    by (simp add: ex_pedestrian_def field_def ex_colors_def py_eq_def)
  have h3: "hashable (field ex_pedestrian ''className'') \<and>
          jdict_find ex_colors (field ex_pedestrian ''className'') = None"
    by (simp add: ex_pedestrian_def field_def ex_colors_def py_eq_def)
  have f: "field ex_pedestrian ''className'' = JStr ''pedestrian''"
    by (simp add: ex_pedestrian_def field_def)
  have agg: "aggregate_image_annotations_as_df ex_pandas ex_root_flat False False False None
     = Inr ([ex_car_row []], [ex_info, ex_skip_warning])"
    by (simp add: agg_eval)
  from unknown_class_instance_skipped[OF h1 h2, of ex_pandas ex_groups "table_columns False False" "''img''"
          ex_image_metadata "[]" 1 "[ex_car_row []]" "[ex_info]"]
  have "process_instance ex_pandas ex_colors ex_groups (table_columns False False) ''img''
     ex_image_metadata [] ex_pedestrian (1, [ex_car_row []], [ex_info])
     = Inr (1, [ex_car_row []], [ex_info, ex_skip_warning])"
    by (simp add: f ex_skip_warning_def)
  with h1 h3 agg show ?thesis by blast
qed

text \<open>
  C5.  For an instance of a known class the loop body appends exactly one row, with
  \<open>attributeGroupName\<close> and \<open>attributeName\<close> unset, when the instance has no attributes;
  otherwise it appends exactly one row for each attribute whose group and name validate
  against the class, in order, and so no row at all when every attribute fails.
\<close>

theorem instance_rows_per_valid_attribute:
  assumes obj: "is_obj annotation"
    and cls: "field annotation ''className'' \<noteq> JNull"
             "jdict_get class_name_to_color (field annotation ''className'') = Inr (Some color)"
    and gs: "jdict_find class_group_name_to_values (field annotation ''className'') = Some gs"
    and m: "annotation_meta (type_of annotation) annotation = Inr m"
    and um: "get_user_metadata P annotation = Inr um"
    and imk: "map fst image_metadata = image_metadata_keys"
    and attrs: "py_truthy (field annotation ''attributes'') \<longrightarrow>
                  py_iter (field annotation ''attributes'') = Inr alist \<and> (\<forall>a\<in>set alist. attr_wf a)"
  shows "\<exists>i' rows' logs'.
           process_instance P class_name_to_color class_group_name_to_values
             (table_columns include_comments include_tags) image_name image_metadata dirs annotation
             (annotation_instance_id, rows, logs) = Inr (i', rows', logs') \<and>
           (\<not> py_truthy (field annotation ''attributes'') \<longrightarrow>
              (\<exists>r. rows' = rows @ [r] \<and> cell r ''attributeGroupName'' = JNull \<and>
                    cell r ''attributeName'' = JNull)) \<and>
           (py_truthy (field annotation ''attributes'') \<longrightarrow>
              rows' = rows @ map (\<lambda>a. instance_row (table_columns include_comments include_tags)
                                     image_name annotation_instance_id dirs annotation color m um
                                     image_metadata (attribute_fields_of a))
                                 (filter (attr_valid gs) alist) \<and>
              length rows' = length rows + length (filter (attr_valid gs) alist)) \<and>
           (py_truthy (field annotation ''attributes'') \<and> (\<forall>a\<in>set alist. \<not> attr_valid gs a) \<longrightarrow>
              rows' = rows)"
proof (cases "py_truthy (field annotation ''attributes'')")
  case False
  let ?r = "instance_row (table_columns include_comments include_tags) image_name
              annotation_instance_id dirs annotation color m um image_metadata []"
  have "process_instance P class_name_to_color class_group_name_to_values
             (table_columns include_comments include_tags) image_name image_metadata dirs annotation
             (annotation_instance_id, rows, logs) = Inr (annotation_instance_id + 1, rows @ [?r], logs)"
    using False cls m um by (simp add: process_instance_obj[OF obj])
  moreover have "cell ?r ''attributeGroupName'' = JNull" "cell ?r ''attributeName'' = JNull"
    using instance_row_cells(5,6)[OF get_user_metadata_keys[OF um] imk disjI1[OF refl]] by simp_all
  ultimately show ?thesis using False by auto
next
  case True
  let ?cn = "field annotation ''className''"
  let ?mk = "\<lambda>g n. instance_dict image_name annotation_instance_id ?cn
                    [(''attributeGroupName'', g), (''attributeName'', n)]
                    (type_of annotation) (field annotation ''locked'')
                    (field annotation ''visible'') (field annotation ''trackingId'') m
                    (field annotation ''error'') (field annotation ''probability'')
                    (field annotation ''pointLabels'') color (field annotation ''groupId'')
                    (folder_name_of dirs) um image_metadata"
  let ?valid = "filter (attr_valid gs) alist"
  let ?new = "map (\<lambda>a. instance_row (table_columns include_comments include_tags)
                                     image_name annotation_instance_id dirs annotation color m um
                                     image_metadata (attribute_fields_of a)) ?valid"
  from True attrs have it: "py_iter (field annotation ''attributes'') = Inr alist"
    and wf: "\<forall>a\<in>set alist. attr_wf a" by simp_all
  from process_attributes_total[OF gs wf] obtain res where
    "process_attributes class_group_name_to_values ?cn (table_columns include_comments include_tags)
       ?mk alist (0, rows, logs) = Inr res" by blast
  then obtain n rows' logs' where
    pa: "process_attributes class_group_name_to_values ?cn (table_columns include_comments include_tags)
       ?mk alist (0, rows, logs) = Inr (n, rows', logs')" by (cases res) auto
  from process_attributes_result[OF pa gs]
  have "rows' = rows @ map (\<lambda>a. append_annotation (table_columns include_comments include_tags)
                                (?mk (field a ''groupName'') (field a ''name''))) ?valid" by simp
  also have "\<dots> = rows @ ?new"
    by (simp add: instance_row_def attribute_fields_of_def)
  finally have rows': "rows' = rows @ ?new" .
  have "process_instance P class_name_to_color class_group_name_to_values
             (table_columns include_comments include_tags) image_name image_metadata dirs annotation
             (annotation_instance_id, rows, logs)
          = Inr (if n > 0 then annotation_instance_id + 1 else annotation_instance_id, rows', logs')"
    using True cls m um it pa by (simp add: process_instance_obj[OF obj])
  moreover have "(\<forall>a\<in>set alist. \<not> attr_valid gs a) \<longrightarrow> rows' = rows"
    using rows' by (simp add: filter_False)
  moreover have "length rows' = length rows + length ?valid" using rows' by simp
  ultimately show ?thesis using True rows' by blast
qed

theorem instance_rows_per_valid_attribute_witness:
  "is_obj ex_car_attrs \<and> field ex_car_attrs ''className'' \<noteq> JNull \<and>
   jdict_get ex_colors (field ex_car_attrs ''className'') = Inr (Some (JStr ''#ff0000'')) \<and>
   jdict_find ex_groups (field ex_car_attrs ''className'')
     = Some [(JStr ''size'', [JStr ''big'', JStr ''small''])] \<and>
   annotation_meta (type_of ex_car_attrs) ex_car_attrs = Inr ex_points \<and>
   get_user_metadata ex_pandas ex_car_attrs = Inr ex_user_metadata \<and>
   map fst ex_image_metadata = image_metadata_keys \<and>
   py_truthy (field ex_car_attrs ''attributes'') \<and>
   py_iter (field ex_car_attrs ''attributes'')
     = Inr [ex_attr ''size'' ''big'', ex_attr ''size'' ''huge'', ex_attr ''colour'' ''red''] \<and>
   attr_wf (ex_attr ''size'' ''big'') \<and> attr_wf (ex_attr ''size'' ''huge'') \<and>
   attr_wf (ex_attr ''colour'' ''red'') \<and>
   (\<exists>i' rows' logs'.
      process_instance ex_pandas ex_colors ex_groups (table_columns False False) ''img''
        ex_image_metadata [] ex_car_attrs (0, [], []) = Inr (i', rows', logs') \<and>
      rows' = [instance_row (table_columns False False) ''img'' 0 [] ex_car_attrs (JStr ''#ff0000'')
                 ex_points ex_user_metadata ex_image_metadata
                 (attribute_fields_of (ex_attr ''size'' ''big''))])"
proof -
  let ?alist = "[ex_attr ''size'' ''big'', ex_attr ''size'' ''huge'', ex_attr ''colour'' ''red'']"
  let ?gs = "[(JStr ''size'', [JStr ''big'', JStr ''small''])]"
  have h1: "is_obj ex_car_attrs"
    and h2: "field ex_car_attrs ''className'' \<noteq> JNull"
    and h3: "jdict_get ex_colors (field ex_car_attrs ''className'') = Inr (Some (JStr ''#ff0000''))"
    and h4: "jdict_find ex_groups (field ex_car_attrs ''className'') = Some ?gs"
    and h7: "map fst ex_image_metadata = image_metadata_keys"
    by (simp_all add: ex_car_attrs_def field_def ex_colors_def ex_groups_def jdict_get_def py_eq_def
          ex_image_metadata_def image_metadata_keys_def)
  have h5: "annotation_meta (type_of ex_car_attrs) ex_car_attrs = Inr ex_points"
    by (simp add: agg_eval)
  have h6: "get_user_metadata ex_pandas ex_car_attrs = Inr ex_user_metadata"
    by (simp add: agg_eval)
  have t: "py_truthy (field ex_car_attrs ''attributes'')"
    and it: "py_iter (field ex_car_attrs ''attributes'') = Inr ?alist"
    by (simp_all add: ex_car_attrs_def field_def)
  have wf: "\<forall>a\<in>set ?alist. attr_wf a"
    by (simp add: attr_wf_def ex_attr_def field_def)
  have h8: "py_truthy (field ex_car_attrs ''attributes'') \<longrightarrow>
              py_iter (field ex_car_attrs ''attributes'') = Inr ?alist \<and> (\<forall>a\<in>set ?alist. attr_wf a)"
    using it wf by blast
  have valid: "filter (attr_valid ?gs) ?alist = [ex_attr ''size'' ''big'']"
    by (simp add: attr_valid_def ex_attr_def field_def py_eq_def list_contains_def)
  note c5 = instance_rows_per_valid_attribute[OF h1 h2 h3 h4 h5 h6 h7 h8, of False False "''img''" "[]" 0 "[]" "[]",
                   unfolded valid]
  have "\<exists>i' rows' logs'.
      process_instance ex_pandas ex_colors ex_groups (table_columns False False) ''img''
        ex_image_metadata [] ex_car_attrs (0, [], []) = Inr (i', rows', logs') \<and>
      rows' = [instance_row (table_columns False False) ''img'' 0 [] ex_car_attrs (JStr ''#ff0000'')
                 ex_points ex_user_metadata ex_image_metadata
                 (attribute_fields_of (ex_attr ''size'' ''big''))]"
    using c5 t by auto
  moreover from wf have "attr_wf (ex_attr ''size'' ''big'')" "attr_wf (ex_attr ''size'' ''huge'')"
    "attr_wf (ex_attr ''colour'' ''red'')" by simp_all
  ultimately show ?thesis using h1 h2 h3 h4 h5 h6 h7 t it by blast
qed






end
